theory Spec2Isabelle
  imports Main "HOL-Library.Word" "HOL-Library.Sublist"
begin

unbundle bit_operations_syntax

section \<open>JavaScript values\<close>

text \<open>
  A JavaScript string is a sequence of UTF-16 code units. String literals of the
  source are written with \<open>lit\<close>; the few non-ASCII characters of the source's
  literals (the status emoji) are given by their code units.
\<close>

type_synonym js_string = "16 word list"

definition lit :: "string \<Rightarrow> js_string" where
  "lit s = map (\<lambda>c. of_nat (of_char c)) s"

text \<open>Truthiness of a string: only the empty string is falsy.\<close>

definition truthy :: "js_string \<Rightarrow> bool" where
  "truthy s = (s \<noteq> [])"

text \<open>
  \<open>String.prototype.trim\<close>: strips the ECMAScript WhiteSpace and LineTerminator
  code units from both ends.
\<close>

definition is_space :: "16 word \<Rightarrow> bool" where
  "is_space c = (c \<in> {0x9, 0xA, 0xB, 0xC, 0xD, 0x20, 0xA0, 0x1680, 0x2028, 0x2029,
      0x202F, 0x205F, 0x3000, 0xFEFF} \<or> (0x2000 \<le> c \<and> c \<le> 0x200A))"

definition trim :: "js_string \<Rightarrow> js_string" where
  "trim s = rev (dropWhile is_space (rev (dropWhile is_space s)))"

text \<open>\<open>String.prototype.startsWith\<close>.\<close>

definition startsWith :: "js_string \<Rightarrow> js_string \<Rightarrow> bool" where
  "startsWith s p = (take (length p) s = p)"

text \<open>
  \<open>Number.prototype.toString\<close> on a non-negative integer (below \<open>10^21\<close>, where
  JavaScript switches to exponent notation): its decimal digits.
\<close>

function digits :: "nat \<Rightarrow> js_string" where
  "digits n =
     (if n < 10 then [of_nat (48 + n)]
      else digits (n div 10) @ [of_nat (48 + n mod 10)])"
  by pat_completeness auto
termination
  by (relation "measure id") auto

declare digits.simps [simp del]

definition toString :: "nat \<Rightarrow> js_string" where
  "toString n = digits n"

text \<open>
  An error object as the handlers read it: \<open>error.reason\<close> (set by the chain
  library on reverts, absent on errors this program throws) and \<open>error.message\<close>.
\<close>

record js_error =
  err_reason :: "js_string option"
  err_message :: js_string

definition Error :: "js_string \<Rightarrow> js_error" where
  "Error m = \<lparr>err_reason = None, err_message = m\<rparr>"

text \<open>\<open>a || b\<close> on an optional string and a string.\<close>

definition or_else :: "js_string option \<Rightarrow> js_string \<Rightarrow> js_string" where
  "or_else a b = (case a of Some s \<Rightarrow> (if truthy s then s else b) | None \<Rightarrow> b)"

section \<open>fheEncryption.ts: the plaintext integer of a message\<close>

text \<open>
  \<open>TextEncoder.encode\<close>: the UTF-8 bytes of a string. Surrogate pairs are
  combined into one code point; a lone surrogate is replaced by U+FFFD.
\<close>

definition is_high :: "16 word \<Rightarrow> bool" where
  "is_high u = (0xD800 \<le> u \<and> u \<le> 0xDBFF)"

definition is_low :: "16 word \<Rightarrow> bool" where
  "is_low u = (0xDC00 \<le> u \<and> u \<le> 0xDFFF)"

fun code_points :: "js_string \<Rightarrow> nat list" where
  "code_points [] = []"
| "code_points [u] = [if is_high u \<or> is_low u then 0xFFFD else unat u]"
| "code_points (u # v # rest) =
     (if is_high u \<and> is_low v
      then (0x10000 + (unat u - 0xD800) * 0x400 + (unat v - 0xDC00)) # code_points rest
      else (if is_high u \<or> is_low u then 0xFFFD else unat u) # code_points (v # rest))"

definition utf8 :: "nat \<Rightarrow> 8 word list" where
  "utf8 cp =
     (if cp < 0x80 then [of_nat cp]
      else if cp < 0x800 then [of_nat (0xC0 + cp div 0x40), of_nat (0x80 + cp mod 0x40)]
      else if cp < 0x10000 then
        [of_nat (0xE0 + cp div 0x1000), of_nat (0x80 + cp div 0x40 mod 0x40),
         of_nat (0x80 + cp mod 0x40)]
      else
        [of_nat (0xF0 + cp div 0x40000), of_nat (0x80 + cp div 0x1000 mod 0x40),
         of_nat (0x80 + cp div 0x40 mod 0x40), of_nat (0x80 + cp mod 0x40)])"

definition TextEncoder_encode :: "js_string \<Rightarrow> 8 word list" where
  "TextEncoder_encode s = concat (map utf8 (code_points s))"

text \<open>
  The loop of \<open>encryptMessage\<close>:
  \<^verbatim>\<open>
  let messageNum = BigInt(0);
  for (let i = 0; i < Math.min(messageBytes.length, 32); i++) {
    messageNum = messageNum | (BigInt(messageBytes[i]) << BigInt(i * 8));
  }
  \<close>
  \<open>BigInt\<close> is unbounded; every value here is non-negative.
\<close>

function messageNum_loop :: "8 word list \<Rightarrow> nat \<Rightarrow> nat \<Rightarrow> nat" where
  "messageNum_loop messageBytes i messageNum =
     (if i < min (length messageBytes) 32
      then messageNum_loop messageBytes (i + 1)
             (messageNum OR push_bit (i * 8) (unat (messageBytes ! i)))
      else messageNum)"
  by pat_completeness auto
termination
  by (relation "measure (\<lambda>(bs, i, acc). min (length bs) 32 - i)") auto

declare messageNum_loop.simps [simp del]

definition messageNum_of :: "js_string \<Rightarrow> nat" where
  "messageNum_of message = messageNum_loop (TextEncoder_encode message) 0 0"

text \<open>
  \<open>toHexString\<close>: \<open>'0x'\<close> followed by two lower-case hex digits for each byte.
\<close>

definition hex_digit :: "nat \<Rightarrow> 16 word" where
  "hex_digit d = (if d < 10 then of_nat (48 + d) else of_nat (87 + d))"

definition toHexString :: "8 word list \<Rightarrow> js_string" where
  "toHexString bytes =
     lit ''0x'' @ concat (map (\<lambda>b. [hex_digit (unat b div 16), hex_digit (unat b mod 16)]) bytes)"

text \<open>
  What \<open>encryptMessage\<close> gets from its collaborators: \<open>initializeFHE()\<close> (which
  throws when the wallet is absent or the SDK fails to start), the signer's address, and
  the relayer SDK's \<open>createEncryptedInput(CONTRACT_ADDRESS, userAddress)\<close>,
  \<open>add256(messageNum)\<close>, \<open>encrypt()\<close>, which yields \<open>handles[0]\<close> and
  \<open>inputProof\<close> or throws.
\<close>

record fhe_env =
  initializeFHE_result :: "js_error + unit"
  getAddress_result :: "js_error + js_string"
  encrypt_result :: "nat \<Rightarrow> js_string \<Rightarrow> js_error + 8 word list \<times> 8 word list"

record encrypted =
  encryptedMessage :: js_string
  inputProof :: js_string

text \<open>
  The \<open>catch\<close> of \<open>encryptMessage\<close> rethrows every failure under one prefix; the
  failures are \<open>Error\<close> objects, whose message is kept.
\<close>

definition encrypt_failed :: "js_error \<Rightarrow> js_error" where
  "encrypt_failed e = Error (lit ''Failed to encrypt message: '' @ err_message e)"

definition encryptMessage :: "fhe_env \<Rightarrow> js_string \<Rightarrow> js_error + encrypted" where
  "encryptMessage env message =
     (case initializeFHE_result env of
        Inl e \<Rightarrow> Inl (encrypt_failed e)
      | Inr _ \<Rightarrow>
     (case getAddress_result env of
        Inl e \<Rightarrow> Inl (encrypt_failed e)
      | Inr userAddress \<Rightarrow>
     (let messageBytes = TextEncoder_encode message;
          messageNum = messageNum_loop messageBytes 0 0
      in case encrypt_result env messageNum userAddress of
           Inl e \<Rightarrow> Inl (encrypt_failed e)
         | Inr (handle0, proof0) \<Rightarrow>
             Inr \<lparr>encryptedMessage = toHexString handle0,
                  inputProof = toHexString proof0\<rparr>)))"

text \<open>
  \<open>decryptUint256\<close> is a placeholder that always throws.
\<close>

definition decryptUint256 :: "js_string \<Rightarrow> js_string \<Rightarrow> js_error + js_string" where
  "decryptUint256 encryptedHandle contractAddress =
     Inl (Error (lit (''FHE decryption requires Zama KMS integration. '' @
                      ''Message is securely encrypted on-chain.'')))"

section \<open>imageUpload.ts\<close>

record File =
  file_name :: js_string
  file_type :: js_string
  file_size :: nat

record UploadResult =
  imageUri :: js_string
  previewUrl :: js_string

text \<open>
  The build-time environment variables (absent when unset) and the outcomes of the two
  external calls: the pinning service's \<open>response.data.IpfsHash\<close> or the thrown error,
  and the \<open>FileReader\<close>'s data URL (\<open>None\<close> when \<open>onerror\<close> fires).
\<close>

record upload_env =
  VITE_PINATA_API_KEY :: "js_string option"
  VITE_PINATA_API_SECRET :: "js_string option"
  VITE_PINATA_GATEWAY :: "js_string option"
  pinFileToIPFS_result :: "js_error + js_string"
  readAsDataURL_result :: "js_string option"

definition configured :: "js_string option \<Rightarrow> bool" where
  "configured v = (case v of None \<Rightarrow> False | Some s \<Rightarrow> truthy s)"

definition uploadToPinata :: "upload_env \<Rightarrow> File \<Rightarrow> js_error + UploadResult" where
  "uploadToPinata env f =
     (if \<not> configured (VITE_PINATA_API_KEY env) \<or> \<not> configured (VITE_PINATA_API_SECRET env)
      then Inl (Error (lit ''Pinata API credentials not configured''))
      else case pinFileToIPFS_result env of
             Inl e \<Rightarrow> Inl e
           | Inr ipfsHash \<Rightarrow>
               Inr \<lparr>imageUri = lit ''ipfs://'' @ ipfsHash,
                    previewUrl = or_else (VITE_PINATA_GATEWAY env) (lit ''https://gateway.pinata.cloud'')
                                 @ lit ''/ipfs/'' @ ipfsHash\<rparr>)"

definition uploadAsBase64 :: "upload_env \<Rightarrow> File \<Rightarrow> js_error + UploadResult" where
  "uploadAsBase64 env f =
     (case readAsDataURL_result env of
        None \<Rightarrow> Inl (Error (lit ''Failed to read file''))
      | Some base64String \<Rightarrow> Inr \<lparr>imageUri = base64String, previewUrl = base64String\<rparr>)"

text \<open>\<open>Math.round(file.size / 1024)\<close>: halves round up.\<close>

definition round_kb :: "nat \<Rightarrow> nat" where
  "round_kb n = (n + 512) div 1024"

definition too_large_for_chain :: "nat \<Rightarrow> js_error" where
  "too_large_for_chain n =
     Error (lit ''Image too large for on-chain storage ('' @ toString (round_kb n) @ lit ''KB). ''
          @ lit ''Please use an image under 100KB, or configure Pinata IPFS in .env file. ''
          @ lit ''See .env.example for setup instructions.'')"

text \<open>
  The \<open>try\<close> block of \<open>uploadImage\<close>: the pinning service's result when an API
  key is configured and the upload succeeds; any failure there is caught and logged.
\<close>

definition try_pinata :: "upload_env \<Rightarrow> File \<Rightarrow> UploadResult option" where
  "try_pinata env f =
     (if configured (VITE_PINATA_API_KEY env)
      then (case uploadToPinata env f of Inl e \<Rightarrow> None | Inr result \<Rightarrow> Some result)
      else None)"

definition maxSize :: nat where
  "maxSize = 10 * 1024 * 1024"

definition maxBase64Size :: nat where
  "maxBase64Size = 100 * 1024"

definition uploadImage :: "upload_env \<Rightarrow> File \<Rightarrow> js_error + UploadResult" where
  "uploadImage env f =
     (if \<not> startsWith (file_type f) (lit ''image/'') then Inl (Error (lit ''File must be an image''))
      else if file_size f > maxSize then Inl (Error (lit ''Image must be less than 10MB''))
      else case try_pinata env f of
             Some result \<Rightarrow> Inr result
           | None \<Rightarrow>
               if file_size f > maxBase64Size then Inl (too_large_for_chain (file_size f))
               else uploadAsBase64 env f)"

text \<open>
  The second copy of the upload module in the repository (\<open>src/unnamed/part_003\<close>)
  has the same checks but no size ceiling before the inline fallback, and always previews
  through the public gateway.
\<close>

definition uploadToPinata_part_003 :: "upload_env \<Rightarrow> File \<Rightarrow> js_error + UploadResult" where
  "uploadToPinata_part_003 env f =
     (if \<not> configured (VITE_PINATA_API_KEY env) \<or> \<not> configured (VITE_PINATA_API_SECRET env)
      then Inl (Error (lit ''Pinata API credentials not configured''))
      else case pinFileToIPFS_result env of
             Inl e \<Rightarrow> Inl e
           | Inr ipfsHash \<Rightarrow>
               Inr \<lparr>imageUri = lit ''ipfs://'' @ ipfsHash,
                    previewUrl = lit ''https://gateway.pinata.cloud/ipfs/'' @ ipfsHash\<rparr>)"

definition uploadImage_part_003 :: "upload_env \<Rightarrow> File \<Rightarrow> js_error + UploadResult" where
  "uploadImage_part_003 env f =
     (if \<not> startsWith (file_type f) (lit ''image/'') then Inl (Error (lit ''File must be an image''))
      else if file_size f > maxSize then Inl (Error (lit ''Image must be less than 10MB''))
      else case (if configured (VITE_PINATA_API_KEY env)
                 then (case uploadToPinata_part_003 env f of Inl e \<Rightarrow> None | Inr r \<Rightarrow> Some r)
                 else None) of
             Some result \<Rightarrow> Inr result
           | None \<Rightarrow> uploadAsBase64 env f)"

section \<open>HiddenNFTAppV2Simple.tsx: the mint, transfer and reveal handlers\<close>

text \<open>
  The component's state (its \<open>useState\<close> cells and the wallet hook's state) together
  with the browser's \<open>localStorage\<close>, which the handlers read and write and which is
  taken to accept every write. Token ids are JavaScript numbers holding non-negative
  integers.
\<close>

datatype tab = MintTab | TransferTab | GalleryTab

record NFTItem =
  nft_tokenId :: nat
  nft_owner :: js_string
  nft_imageUri :: js_string
  nft_message :: js_string

record app_state =
  wallet_address :: "js_string option"
  wallet_isConnected :: bool
  mintValue :: js_string
  selectedImage :: "File option"
  minting :: bool
  mintStatus :: js_string
  transferToken :: js_string
  transferAddress :: js_string
  transferring :: bool
  transferStatus :: js_string
  decryptedAttributes :: "js_string \<rightharpoonup> js_string"
  activeDecrypt :: "nat option"
  decryptStatus :: js_string
  nfts :: "NFTItem list"
  activeTab :: tab
  localStorage :: "js_string \<rightharpoonup> js_string"

text \<open>
  The calls a handler makes on its collaborators and on \<open>localStorage\<close>, in the
  order it makes them.
\<close>

datatype event =
    UploadImage File
  | EncryptMessage js_string
  | GetSigner
  | ContractMint js_string js_string js_string
  | TxWait
  | SetItem js_string js_string
  | GetItem js_string
  | ContractTransferFrom js_string js_string nat
  | ContractGetEncryptedMessage nat
  | DecryptUint256 js_string

text \<open>
  A transaction receipt: its logs, each the list of its topics. A topic is a 32-byte hex
  string, never empty; it is given here by the number it denotes, which is what
  \<open>Number(topic)\<close> returns.
\<close>

record Receipt =
  logs :: "nat list list"

text \<open>\<open>receipt.logs[0]?.topics[3]\<close>\<close>

definition topic3 :: "Receipt \<Rightarrow> nat option" where
  "topic3 receipt =
     (case logs receipt of
        [] \<Rightarrow> None
      | topics # _ \<Rightarrow> (if 3 < length topics then Some (topics ! 3) else None))"

text \<open>
  \<open>!wallet.isConnected || !wallet.address\<close>
\<close>

definition wallet_missing :: "app_state \<Rightarrow> bool" where
  "wallet_missing s = (\<not> wallet_isConnected s \<or> \<not> configured (wallet_address s))"

text \<open>A string or \<open>null\<close> inside a template literal.\<close>

definition template :: "js_string option \<Rightarrow> js_string" where
  "template v = (case v of None \<Rightarrow> lit ''null'' | Some a \<Rightarrow> a)"

text \<open>The cache key \<open>nft_message_${wallet.address}_${tokenId}\<close>.\<close>

definition storage_key :: "js_string option \<Rightarrow> nat \<Rightarrow> js_string" where
  "storage_key account tokenId =
     lit ''nft_message_'' @ template account @ lit ''_'' @ toString tokenId"

text \<open>
  What \<open>handleMint\<close> gets from its collaborators beyond the upload and the encryption:
  \<open>provider.getSigner()\<close>, \<open>contract.mint(...)\<close> (the submitted transaction, or the
  thrown rejection or revert) and \<open>tx.wait()\<close> (the receipt, \<open>null\<close>, or the thrown
  failure).
\<close>

record mint_env =
  upload :: upload_env
  fhe :: fhe_env
  getSigner_result :: "js_error + unit"
  mint_result :: "js_error + unit"
  mint_wait_result :: "js_error + Receipt option"

text \<open>
  The \<open>catch\<close> and \<open>finally\<close> of \<open>handleMint\<close>:
  \<open>error.reason || error.message || 'Mint failed'\<close> behind a cross mark.
\<close>

definition mint_failed :: "js_error \<Rightarrow> app_state \<Rightarrow> app_state" where
  "mint_failed e s =
     s\<lparr>mintStatus := [0x274C] @ lit '' '' @
           or_else (err_reason e) (or_else (Some (err_message e)) (lit ''Mint failed'')),
       minting := False\<rparr>"

definition mint_confirmed :: "Receipt \<Rightarrow> app_state \<Rightarrow> event list \<times> app_state" where
  "mint_confirmed receipt s =
     (let done = s\<lparr>mintStatus := [0x2705] @
                      lit '' NFT minted successfully! Check Etherscan for your transaction.'',
                    mintValue := [], selectedImage := None, activeTab := GalleryTab,
                    minting := False\<rparr>
      in case topic3 receipt of
           None \<Rightarrow> ([], done)
         | Some tokenIdNum \<Rightarrow>
             ([SetItem (storage_key (wallet_address s) tokenIdNum) (mintValue s)],
              done\<lparr>localStorage :=
                     (localStorage s)(storage_key (wallet_address s) tokenIdNum \<mapsto> mintValue s)\<rparr>))"

definition handleMint :: "mint_env \<Rightarrow> app_state \<Rightarrow> event list \<times> app_state" where
  "handleMint env s0 =
     (let s = s0\<lparr>mintStatus := []\<rparr> in
      if wallet_missing s then
        ([], s\<lparr>mintStatus := [0xD83D, 0xDCBC] @ lit '' Please connect your wallet first.''\<rparr>)
      else case selectedImage s of
        None \<Rightarrow> ([], s\<lparr>mintStatus := lit ''Please select an image for the NFT.''\<rparr>)
      | Some picture \<Rightarrow>
      if \<not> truthy (trim (mintValue s)) then
        ([], s\<lparr>mintStatus := lit ''Please enter a message for the NFT.''\<rparr>)
      else case uploadImage (upload env) picture of
        Inl e \<Rightarrow> ([UploadImage picture], mint_failed e s)
      | Inr uploaded \<Rightarrow>
      (case encryptMessage (fhe env) (mintValue s) of
        Inl e \<Rightarrow> ([UploadImage picture, EncryptMessage (mintValue s)], mint_failed e s)
      | Inr enc \<Rightarrow>
      (case getSigner_result env of
        Inl e \<Rightarrow> ([UploadImage picture, EncryptMessage (mintValue s), GetSigner], mint_failed e s)
      | Inr _ \<Rightarrow>
      (let submit = ContractMint (encryptedMessage enc) (inputProof enc) (imageUri uploaded) in
       case mint_result env of
        Inl e \<Rightarrow>
          ([UploadImage picture, EncryptMessage (mintValue s), GetSigner, submit], mint_failed e s)
      | Inr _ \<Rightarrow>
      (case mint_wait_result env of
        Inl e \<Rightarrow>
          ([UploadImage picture, EncryptMessage (mintValue s), GetSigner, submit, TxWait],
           mint_failed e s)
      | Inr None \<Rightarrow>
          ([UploadImage picture, EncryptMessage (mintValue s), GetSigner, submit, TxWait],
           s\<lparr>mintStatus := [0x23F3] @ lit ('' Waiting for blockchain confirmation... '' @
                  ''Check Etherscan for your transaction.''),
             minting := False\<rparr>)
      | Inr (Some receipt) \<Rightarrow>
          (let (written, s') = mint_confirmed receipt s in
           ([UploadImage picture, EncryptMessage (mintValue s), GetSigner, submit, TxWait] @ written,
            s')))))))"

text \<open>The pattern \<open>/^0x[a-fA-F0-9]{40}$/\<close> that \<open>handleTransfer\<close> tests.\<close>

definition is_hex :: "16 word \<Rightarrow> bool" where
  "is_hex c = ((0x30 \<le> c \<and> c \<le> 0x39) \<or> (0x41 \<le> c \<and> c \<le> 0x46) \<or> (0x61 \<le> c \<and> c \<le> 0x66))"

definition ZERO_ADDRESS_test :: "js_string \<Rightarrow> bool" where
  "ZERO_ADDRESS_test a =
     (length a = 42 \<and> take 2 a = lit ''0x'' \<and> list_all is_hex (drop 2 a))"

text \<open>
  \<open>Number(transferToken)\<close> followed by the test
  \<open>!Number.isInteger(tokenId) || tokenId < 0\<close>. The field's \<open>onChange\<close> handler
  removes every character other than a decimal digit, so the field holds a string of
  digits. \<open>Number\<close> converts the empty string to 0 and a digit string to the double
  nearest to the number it writes (ties to the even mantissa, as the engines do): exactly
  below \<open>2^53\<close>, rounded to 53 significant bits above, and \<open>Infinity\<close>, which is
  not an integer, once the rounded value reaches \<open>2^1024\<close>. Any other string is taken
  to the invalid branch.
\<close>

definition is_digit :: "16 word \<Rightarrow> bool" where
  "is_digit c = (0x30 \<le> c \<and> c \<le> 0x39)"

text \<open>The number of binary digits of a number.\<close>

function bit_length :: "nat \<Rightarrow> nat" where
  "bit_length n = (if n = 0 then 0 else Suc (bit_length (n div 2)))"
  by pat_completeness auto
termination
  by (relation "measure id") auto

declare bit_length.simps [simp del]

text \<open>The double nearest to a natural number; \<open>None\<close> is \<open>Infinity\<close>.\<close>

definition to_double :: "nat \<Rightarrow> nat option" where
  "to_double n =
     (if n < 2 ^ 53 then Some n
      else
        (let dropped = bit_length n - 53;
             mantissa = n div 2 ^ dropped;
             rest = n mod 2 ^ dropped;
             half = 2 ^ (dropped - 1);
             rounded = (if rest > half \<or> (rest = half \<and> odd mantissa) then mantissa + 1
                        else mantissa)
         in if rounded * 2 ^ dropped \<ge> 2 ^ 1024 then None else Some (rounded * 2 ^ dropped)))"

definition Number_token :: "js_string \<Rightarrow> nat option" where
  "Number_token t =
     (if list_all is_digit t then to_double (foldl (\<lambda>n c. 10 * n + (unat c - 48)) 0 t)
      else None)"

record transfer_env =
  transfer_getSigner_result :: "js_error + unit"
  transferFrom_result :: "js_error + unit"
  transfer_wait_result :: "js_error + Receipt option"

definition transfer_failed :: "js_error \<Rightarrow> app_state \<Rightarrow> app_state" where
  "transfer_failed e s =
     s\<lparr>transferStatus := [0x274C] @ lit '' '' @
           or_else (err_reason e) (or_else (Some (err_message e)) (lit ''Transfer failed'')),
       transferring := False\<rparr>"

definition handleTransfer :: "transfer_env \<Rightarrow> app_state \<Rightarrow> event list \<times> app_state" where
  "handleTransfer env s0 =
     (let s = s0\<lparr>transferStatus := []\<rparr> in
      if wallet_missing s then
        ([], s\<lparr>transferStatus := [0xD83D, 0xDCBC] @ lit '' Please connect your wallet first.''\<rparr>)
      else if \<not> ZERO_ADDRESS_test (trim (transferAddress s)) then
        ([], s\<lparr>transferStatus := lit ''Enter a valid Ethereum address (0x...)''\<rparr>)
      else case Number_token (transferToken s) of
        None \<Rightarrow> ([], s\<lparr>transferStatus := lit ''Enter a valid token ID (must be a number)''\<rparr>)
      | Some tokenId \<Rightarrow>
      (case transfer_getSigner_result env of
        Inl e \<Rightarrow> ([GetSigner], transfer_failed e s)
      | Inr _ \<Rightarrow>
      (let submit = ContractTransferFrom (template (wallet_address s)) (transferAddress s) tokenId in
       case transferFrom_result env of
        Inl e \<Rightarrow> ([GetSigner, submit], transfer_failed e s)
      | Inr _ \<Rightarrow>
      (case transfer_wait_result env of
        Inl e \<Rightarrow> ([GetSigner, submit, TxWait], transfer_failed e s)
      | Inr None \<Rightarrow>
          ([GetSigner, submit, TxWait],
           s\<lparr>transferStatus := [0x23F3] @ lit '' Transaction submitted! Waiting for confirmation...'',
             transferring := False\<rparr>)
      | Inr (Some receipt) \<Rightarrow>
          ([GetSigner, submit, TxWait],
           s\<lparr>transferStatus := [0x2705] @
                  lit '' Transfer completed! Check Etherscan for your transaction.'',
             transferToken := [], transferAddress := [], transferring := False\<rparr>)))))"

text \<open>
  \<open>decryptMessage\<close>: the reveal. Its only collaborator outcome is the contract read
  \<open>contract.getEncryptedMessage(tokenId)\<close>; \<open>decryptUint256\<close> is the function above.
\<close>

definition CONTRACT_ADDRESS :: js_string where
  "CONTRACT_ADDRESS = lit ''0xb23e1c3E307C161bc97cF1540e730e36d98755e2''"

definition reveal_failed :: "js_error \<Rightarrow> app_state \<Rightarrow> app_state" where
  "reveal_failed e s =
     s\<lparr>decryptStatus := [0x274C] @ lit '' '' @ or_else (Some (err_message e)) (lit ''Reveal failed''),
       activeDecrypt := None\<rparr>"

definition placeholder :: js_string where
  "placeholder =
     [0xD83D, 0xDD12] @ lit '' Message encrypted on-chain. Only owner with local key can view.''"

definition decryptMessage ::
  "(js_error + js_string) \<Rightarrow> app_state \<Rightarrow> nat \<Rightarrow> event list \<times> app_state" where
  "decryptMessage getEncryptedMessage_result s0 tokenId =
     (let s = s0\<lparr>activeDecrypt := Some tokenId, decryptStatus := []\<rparr> in
      case find (\<lambda>n. nft_tokenId n = tokenId) (nfts s) of
        None \<Rightarrow> ([], reveal_failed (Error (lit ''NFT not found'')) s)
      | Some nft \<Rightarrow>
      (let key = storage_key (wallet_address s) tokenId in
       if configured (localStorage s key) then
         ([GetItem key],
          s\<lparr>decryptedAttributes := (decryptedAttributes s)(toString tokenId \<mapsto> the (localStorage s key)),
            decryptStatus := [0x2705] @ lit '' Message revealed from local storage!'',
            activeDecrypt := None\<rparr>)
       else case getEncryptedMessage_result of
         Inl e \<Rightarrow> ([GetItem key, ContractGetEncryptedMessage tokenId], reveal_failed e s)
       | Inr encryptedHandle \<Rightarrow>
         (case decryptUint256 encryptedHandle CONTRACT_ADDRESS of
            Inr decryptedMessage \<Rightarrow>
              ([GetItem key, ContractGetEncryptedMessage tokenId, DecryptUint256 encryptedHandle],
               s\<lparr>decryptedAttributes := (decryptedAttributes s)(toString tokenId \<mapsto> decryptedMessage),
                 decryptStatus := [0x2705] @ lit '' Message decrypted!'',
                 activeDecrypt := None\<rparr>)
          | Inl decryptError \<Rightarrow>
              ([GetItem key, ContractGetEncryptedMessage tokenId, DecryptUint256 encryptedHandle],
               s\<lparr>decryptedAttributes := (decryptedAttributes s)(toString tokenId \<mapsto> placeholder),
                 decryptStatus := [0x2139, 0xFE0F] @ lit '' Message is FHE-encrypted on blockchain'',
                 activeDecrypt := None\<rparr>))))"

section \<open>The steps of one mint\<close>

text \<open>The stage of the mint pipeline an event belongs to.\<close>

datatype step = Upload | Encrypt | Signer | Submit | Confirm | CacheWrite | NoStep

fun step_of :: "event \<Rightarrow> step" where
  "step_of (UploadImage f) = Upload"
| "step_of (EncryptMessage m) = Encrypt"
| "step_of GetSigner = Signer"
| "step_of (ContractMint h p u) = Submit"
| "step_of TxWait = Confirm"
| "step_of (SetItem k v) = CacheWrite"
| "step_of e = NoStep"

text \<open>A call that returns rather than throws.\<close>

definition returns :: "'e + 'a \<Rightarrow> bool" where
  "returns r = (case r of Inl e \<Rightarrow> False | Inr v \<Rightarrow> True)"

text \<open>A mint that is confirmed with a token id in its receipt.\<close>

definition mint_confirms :: "mint_env \<Rightarrow> app_state \<Rightarrow> nat \<Rightarrow> bool" where
  "mint_confirms env s tokenId =
     (\<not> wallet_missing s \<and> truthy (trim (mintValue s))
      \<and> (case selectedImage s of
            None \<Rightarrow> False
          | Some picture \<Rightarrow> returns (uploadImage (upload env) picture))
      \<and> returns (encryptMessage (fhe env) (mintValue s))
      \<and> returns (getSigner_result env) \<and> returns (mint_result env)
      \<and> (case mint_wait_result env of
            Inr (Some receipt) \<Rightarrow> topic3 receipt = Some tokenId
          | _ \<Rightarrow> False))"

text \<open>The upload of the selected picture returns.\<close>

definition upload_returns :: "mint_env \<Rightarrow> app_state \<Rightarrow> bool" where
  "upload_returns env s =
     (case selectedImage s of None \<Rightarrow> False | Some p \<Rightarrow> returns (uploadImage (upload env) p))"

section \<open>HiddenAttributeNFT.sol\<close>

text \<open>
  The contract's storage: the token library's ownership and approval tables, the owner of
  the contract, and the contract's own variables. An encrypted value (\<open>euint256\<close>) is a
  32-byte handle, zero when uninitialised; a Solidity mapping holds zero (the empty
  string) at every key never written. The access-control list of the encryption library
  is the set of (handle, account) pairs allowed so far.

  The token library (OpenZeppelin ERC721, version 5), the ownership module and the
  encryption library are imported by the contract and are not part of the repository; the
  model keeps what the contract's own functions rely on: the ownership and approval
  checks of \<open>_update\<close>, \<open>ownerOf\<close> reverting for a token without owner, the receiver
  callback of the safe mint and the safe transfer, \<open>FHE.isInitialized\<close> comparing the
  handle with zero, \<open>FHE.allow\<close> adding a pair to the list when the access-control
  contract lets this contract grant. Balances and the enumeration tables, which follow
  from the owners, are left out.
\<close>

type_synonym address = "160 word"
type_synonym uint256 = "256 word"
type_synonym euint256 = "256 word"

datatype revert =
    AttributeNotInitialized uint256
  | ERC721NonexistentToken uint256
  | ERC721InvalidSender address
  | ERC721InvalidReceiver address
  | ERC721InsufficientApproval address uint256
  | ERC721IncorrectOwner address uint256 address
  | ERC721InvalidApprover address
  | ERC721InvalidOperator address
  | OwnableUnauthorizedAccount address
  | OwnableInvalidOwner address
  | InvalidInputProof
  | SenderNotAllowed address

record contract =
  this :: address
  owners :: "uint256 \<Rightarrow> address"
  tokenApprovals :: "uint256 \<Rightarrow> address"
  operatorApprovals :: "address \<Rightarrow> address \<Rightarrow> bool"
  contract_owner :: address
  nextTokenId :: uint256
  baseTokenURI :: string
  tokenMessages :: "uint256 \<Rightarrow> euint256"
  tokenImageURIs :: "uint256 \<Rightarrow> string"
  allowed :: "(euint256 \<times> address) set"

text \<open>The state the constructor leaves.\<close>

definition deployed :: "address \<Rightarrow> address \<Rightarrow> string \<Rightarrow> contract" where
  "deployed self deployer uri =
     \<lparr>this = self, owners = (\<lambda>t. 0), tokenApprovals = (\<lambda>t. 0),
      operatorApprovals = (\<lambda>a b. False), contract_owner = deployer, nextTokenId = 1,
      baseTokenURI = uri, tokenMessages = (\<lambda>t. 0), tokenImageURIs = (\<lambda>t. []),
      allowed = {}\<rparr>"

subsection \<open>The libraries\<close>

definition ownerOf :: "contract \<Rightarrow> uint256 \<Rightarrow> revert + address" where
  "ownerOf c tokenId =
     (if owners c tokenId = 0 then Inl (ERC721NonexistentToken tokenId)
      else Inr (owners c tokenId))"

definition isAuthorized :: "contract \<Rightarrow> address \<Rightarrow> address \<Rightarrow> uint256 \<Rightarrow> bool" where
  "isAuthorized c owner spender tokenId =
     (spender \<noteq> 0 \<and>
      (owner = spender \<or> operatorApprovals c owner spender \<or> tokenApprovals c tokenId = spender))"

text \<open>\<open>ERC721._update\<close>, which the contract's \<open>_update\<close> calls as \<open>super._update\<close>.\<close>

definition ERC721_update ::
  "contract \<Rightarrow> address \<Rightarrow> uint256 \<Rightarrow> address \<Rightarrow> revert + contract \<times> address" where
  "ERC721_update c to tokenId auth =
     (let from = owners c tokenId in
      if auth \<noteq> 0 \<and> \<not> isAuthorized c from auth tokenId then
        Inl (if from = 0 then ERC721NonexistentToken tokenId
             else ERC721InsufficientApproval auth tokenId)
      else
        Inr (c\<lparr>tokenApprovals :=
                 (if from \<noteq> 0 then (tokenApprovals c)(tokenId := 0) else tokenApprovals c),
               owners := (owners c)(tokenId := to)\<rparr>,
             from))"

text \<open>
  What the encryption library answers, which the contract cannot know in advance and
  which may depend on the state (on the access list, for an input sent without proof):
  \<open>fromExternal\<close>, the check of an external input, giving the handle or \<open>None\<close> when
  it reverts; and \<open>mayGrant\<close>, the access-control contract's test that this contract is
  itself allowed on a handle, without which \<open>FHE.allow\<close> reverts. Everything below is
  proved for every such library.
\<close>

record fhe_library =
  fromExternal :: "contract \<Rightarrow> uint256 \<Rightarrow> 8 word list \<Rightarrow> address \<Rightarrow> euint256 option"
  mayGrant :: "contract \<Rightarrow> euint256 \<Rightarrow> bool"

definition FHE_isInitialized :: "euint256 \<Rightarrow> bool" where
  "FHE_isInitialized v = (v \<noteq> 0)"

definition FHE_allow :: "fhe_library \<Rightarrow> contract \<Rightarrow> euint256 \<Rightarrow> address \<Rightarrow> revert + contract" where
  "FHE_allow lib c v account =
     (if \<not> mayGrant lib c v then Inl (SenderNotAllowed (this c))
      else Inr (c\<lparr>allowed := insert (v, account) (allowed c)\<rparr>))"

definition FHE_allowThis :: "fhe_library \<Rightarrow> contract \<Rightarrow> euint256 \<Rightarrow> revert + contract" where
  "FHE_allowThis lib c v = FHE_allow lib c v (this c)"

subsection \<open>The contract's functions\<close>

text \<open>
  \<open>_update\<close>, the hook every mint and transfer goes through:
  \<^verbatim>\<open>
  address previousOwner = super._update(to, tokenId, auth);
  if (to != address(0)) {
      euint256 message = _tokenMessages[tokenId];
      if (FHE.isInitialized(message)) {
          FHE.allow(message, to);
          FHE.allowThis(message);
      }
  }
  return previousOwner;
  \<close>
\<close>

definition HiddenAttributeNFT_update ::
  "fhe_library \<Rightarrow> contract \<Rightarrow> address \<Rightarrow> uint256 \<Rightarrow> address \<Rightarrow> revert + contract \<times> address" where
  "HiddenAttributeNFT_update lib c to tokenId auth =
     (case ERC721_update c to tokenId auth of
        Inl r \<Rightarrow> Inl r
      | Inr (c1, previousOwner) \<Rightarrow>
          if to \<noteq> 0 then
            (let message = tokenMessages c1 tokenId in
             if FHE_isInitialized message then
               (case FHE_allow lib c1 message to of
                  Inl r \<Rightarrow> Inl r
                | Inr c2 \<Rightarrow>
                    (case FHE_allowThis lib c2 message of
                       Inl r \<Rightarrow> Inl r
                     | Inr c3 \<Rightarrow> Inr (c3, previousOwner)))
             else Inr (c1, previousOwner))
          else Inr (c1, previousOwner))"

text \<open>
  \<open>_safeMint\<close> of the token library: \<open>_mint\<close> (which calls \<open>_update\<close> with no
  authorisation and reverts when the token already had an owner), then, when the
  receiver is a contract, its \<open>onERC721Received\<close>. That callback runs the receiver's
  code while the mint is still under way: \<open>callback\<close> is what this code does to the
  contract's state by calling back into it (the identity for a receiver that calls
  nothing, or that is not a contract), and \<open>accepts\<close> is whether it returns the
  expected value rather than another one or a revert.
\<close>

definition safeMint ::
  "fhe_library \<Rightarrow> (contract \<Rightarrow> contract) \<Rightarrow> bool \<Rightarrow> contract \<Rightarrow> address \<Rightarrow> uint256 \<Rightarrow> revert + contract" where
  "safeMint lib callback accepts c to tokenId =
     (if to = 0 then Inl (ERC721InvalidReceiver 0)
      else case HiddenAttributeNFT_update lib c to tokenId 0 of
        Inl r \<Rightarrow> Inl r
      | Inr (c1, previousOwner) \<Rightarrow>
          if previousOwner \<noteq> 0 then Inl (ERC721InvalidSender 0)
          else (let c2 = callback c1 in
                if \<not> accepts then Inl (ERC721InvalidReceiver to) else Inr c2))"

text \<open>
  \<open>mint\<close>:
  \<^verbatim>\<open>
  tokenId = _nextTokenId;
  unchecked { _nextTokenId = tokenId + 1; }
  _safeMint(_msgSender(), tokenId);
  euint256 message = FHE.fromExternal(encryptedMessage, inputProof);
  _tokenMessages[tokenId] = message;
  _tokenImageURIs[tokenId] = imageURI;
  FHE.allowThis(message);
  FHE.allow(message, _msgSender());
  \<close>
  The handle and the image URI are stored after \<open>_safeMint\<close>, hence after the
  receiver callback has run. A revert anywhere undoes the whole call.
\<close>

definition mint ::
  "fhe_library \<Rightarrow> (contract \<Rightarrow> contract) \<Rightarrow> bool \<Rightarrow> contract \<Rightarrow> address \<Rightarrow>
   uint256 \<Rightarrow> 8 word list \<Rightarrow> string \<Rightarrow> revert + contract \<times> uint256" where
  "mint lib callback accepts c msgSender externalMessage proofBytes imageURI =
     (let tokenId = nextTokenId c;
          c1 = c\<lparr>nextTokenId := tokenId + 1\<rparr>
      in case safeMint lib callback accepts c1 msgSender tokenId of
           Inl r \<Rightarrow> Inl r
         | Inr c2 \<Rightarrow>
        (case fromExternal lib c2 externalMessage proofBytes msgSender of
           None \<Rightarrow> Inl InvalidInputProof
         | Some message \<Rightarrow>
             (let c3 = c2\<lparr>tokenMessages := (tokenMessages c2)(tokenId := message),
                          tokenImageURIs := (tokenImageURIs c2)(tokenId := imageURI)\<rparr>
              in case FHE_allowThis lib c3 message of
                   Inl r \<Rightarrow> Inl r
                 | Inr c4 \<Rightarrow>
                     (case FHE_allow lib c4 message msgSender of
                        Inl r \<Rightarrow> Inl r
                      | Inr c5 \<Rightarrow> Inr (c5, tokenId)))))"

definition getEncryptedMessage :: "contract \<Rightarrow> uint256 \<Rightarrow> revert + euint256" where
  "getEncryptedMessage c tokenId =
     (case ownerOf c tokenId of
        Inl r \<Rightarrow> Inl r
      | Inr holder \<Rightarrow>
          (let message = tokenMessages c tokenId in
           if \<not> FHE_isInitialized message then Inl (AttributeNotInitialized tokenId)
           else Inr message))"

definition getTokenImageURI :: "contract \<Rightarrow> uint256 \<Rightarrow> revert + string" where
  "getTokenImageURI c tokenId =
     (case ownerOf c tokenId of
        Inl r \<Rightarrow> Inl r
      | Inr holder \<Rightarrow> Inr (tokenImageURIs c tokenId))"

definition setBaseTokenURI :: "contract \<Rightarrow> address \<Rightarrow> string \<Rightarrow> revert + contract" where
  "setBaseTokenURI c msgSender newBaseURI =
     (if msgSender \<noteq> contract_owner c then Inl (OwnableUnauthorizedAccount msgSender)
      else Inr (c\<lparr>baseTokenURI := newBaseURI\<rparr>))"

text \<open>
  The token library's and the ownership module's public entry points that change the
  state. The safe transfer calls the receiver after the transfer, as the safe mint does.
\<close>

definition transferFrom ::
  "fhe_library \<Rightarrow> contract \<Rightarrow> address \<Rightarrow> address \<Rightarrow> address \<Rightarrow> uint256 \<Rightarrow> revert + contract" where
  "transferFrom lib c msgSender from to tokenId =
     (if to = 0 then Inl (ERC721InvalidReceiver 0)
      else case HiddenAttributeNFT_update lib c to tokenId msgSender of
        Inl r \<Rightarrow> Inl r
      | Inr (c1, previousOwner) \<Rightarrow>
          if previousOwner \<noteq> from then Inl (ERC721IncorrectOwner from tokenId previousOwner)
          else Inr c1)"

definition safeTransferFrom ::
  "fhe_library \<Rightarrow> (contract \<Rightarrow> contract) \<Rightarrow> bool \<Rightarrow> contract \<Rightarrow> address \<Rightarrow> address \<Rightarrow> address \<Rightarrow>
   uint256 \<Rightarrow> revert + contract" where
  "safeTransferFrom lib callback accepts c msgSender from to tokenId =
     (case transferFrom lib c msgSender from to tokenId of
        Inl r \<Rightarrow> Inl r
      | Inr c1 \<Rightarrow>
          (let c2 = callback c1 in
           if \<not> accepts then Inl (ERC721InvalidReceiver to) else Inr c2))"

definition approve :: "contract \<Rightarrow> address \<Rightarrow> address \<Rightarrow> uint256 \<Rightarrow> revert + contract" where
  "approve c msgSender to tokenId =
     (case ownerOf c tokenId of
        Inl r \<Rightarrow> Inl r
      | Inr holder \<Rightarrow>
          if msgSender \<noteq> 0 \<and> holder \<noteq> msgSender \<and> \<not> operatorApprovals c holder msgSender
          then Inl (ERC721InvalidApprover msgSender)
          else Inr (c\<lparr>tokenApprovals := (tokenApprovals c)(tokenId := to)\<rparr>))"

definition setApprovalForAll :: "contract \<Rightarrow> address \<Rightarrow> address \<Rightarrow> bool \<Rightarrow> revert + contract" where
  "setApprovalForAll c msgSender operator approved =
     (if operator = 0 then Inl (ERC721InvalidOperator operator)
      else Inr (c\<lparr>operatorApprovals :=
                   (operatorApprovals c)(msgSender := (operatorApprovals c msgSender)(operator := approved))\<rparr>))"

definition transferOwnership :: "contract \<Rightarrow> address \<Rightarrow> address \<Rightarrow> revert + contract" where
  "transferOwnership c msgSender newOwner =
     (if msgSender \<noteq> contract_owner c then Inl (OwnableUnauthorizedAccount msgSender)
      else if newOwner = 0 then Inl (OwnableInvalidOwner 0)
      else Inr (c\<lparr>contract_owner := newOwner\<rparr>))"

definition renounceOwnership :: "contract \<Rightarrow> address \<Rightarrow> revert + contract" where
  "renounceOwnership c msgSender =
     (if msgSender \<noteq> contract_owner c then Inl (OwnableUnauthorizedAccount msgSender)
      else Inr (c\<lparr>contract_owner := 0\<rparr>))"

subsection \<open>Runs of calls, nested calls included\<close>

text \<open>
  A call on the contract, with its arguments. A mint and a safe transfer also carry what
  their receiver does when called back: the calls it makes on the contract in turn, and
  whether it accepts the token in the end. Each call of a list comes with the account
  that makes it and with the answers the encryption library gives while it runs (they
  depend on the coprocessor's contracts, whose state others change between calls), and
  may carry callbacks of its own. A receiver that is not a contract makes no call and
  accepts. Whatever a receiver decides from what it reads, in one execution it makes one
  list of calls. A call that reverts leaves the state as it was when the call began: a
  receiver whose own call reverts either goes on, or reverts itself and so does not
  accept. The coprocessor's contracts, which the encryption library calls, are taken not
  to call back into this contract.
\<close>

datatype call =
    Mint uint256 "8 word list" string calls bool
  | TransferFrom address address uint256
  | SafeTransferFrom address address uint256 calls bool
  | Approve address uint256
  | SetApprovalForAll address bool
  | SetBaseTokenURI string
  | TransferOwnership address
  | RenounceOwnership
and calls =
    Done
  | Call address fhe_library call calls

definition keep :: "contract \<Rightarrow> revert + contract \<Rightarrow> contract" where
  "keep c r = (case r of Inl e \<Rightarrow> c | Inr c1 \<Rightarrow> c1)"

fun exec :: "contract \<Rightarrow> address \<Rightarrow> fhe_library \<Rightarrow> call \<Rightarrow> contract"
  and run :: "contract \<Rightarrow> calls \<Rightarrow> contract" where
  "exec c sender lib (Mint externalMessage proofBytes imageURI nested accepts) =
     (case mint lib (\<lambda>inside. run inside nested) accepts c sender
             externalMessage proofBytes imageURI of
        Inl e \<Rightarrow> c
      | Inr (c1, tokenId) \<Rightarrow> c1)"
| "exec c sender lib (TransferFrom from to tokenId) =
     keep c (transferFrom lib c sender from to tokenId)"
| "exec c sender lib (SafeTransferFrom from to tokenId nested accepts) =
     keep c (safeTransferFrom lib (\<lambda>inside. run inside nested) accepts c sender from to tokenId)"
| "exec c sender lib (Approve to tokenId) = keep c (approve c sender to tokenId)"
| "exec c sender lib (SetApprovalForAll operator approved) =
     keep c (setApprovalForAll c sender operator approved)"
| "exec c sender lib (SetBaseTokenURI newBaseURI) = keep c (setBaseTokenURI c sender newBaseURI)"
| "exec c sender lib (TransferOwnership newOwner) = keep c (transferOwnership c sender newOwner)"
| "exec c sender lib RenounceOwnership = keep c (renounceOwnership c sender)"
| "run c Done = c"
| "run c (Call sender lib called rest) = run (exec c sender lib called) rest"

section \<open>HiddenNFTApp.tsx: the reveal with remote decryption\<close>

text \<open>
  The cells \<open>decryptMessage\<close> of \<open>HiddenNFTApp\<close> writes, the calls it makes, and what
  its collaborators answer: the contract read, the signer promise (a signer or
  \<open>undefined\<close>), the signature, and \<open>result[handle]\<close> of the relayer's
  \<open>userDecrypt\<close>. Token ids are \<open>bigint\<close>s.
\<close>

record reveal_state =
  app_decryptedAttributes :: "js_string \<rightharpoonup> js_string"
  app_activeDecrypt :: "nat option"
  app_decryptStatus :: js_string

datatype reveal_event =
    ReadGetEncryptedMessage nat
  | GenerateKeypair
  | CreateEIP712
  | AwaitSigner
  | SignTypedData
  | UserDecrypt js_string

record reveal_env =
  readContract_result :: "js_error + js_string"
  signer_available :: bool
  signTypedData_result :: "js_error + js_string"
  userDecrypt_result :: "js_error + js_string option"

text \<open>
  The \<open>catch\<close> and \<open>finally\<close>: every value thrown here is an \<open>Error\<close>, whose
  message becomes the status.
\<close>

definition decryption_failed :: "js_error \<Rightarrow> reveal_state \<Rightarrow> reveal_state" where
  "decryption_failed e s = s\<lparr>app_decryptStatus := err_message e, app_activeDecrypt := None\<rparr>"

definition HiddenNFTApp_decryptMessage ::
  "bool \<Rightarrow> bool \<Rightarrow> bool \<Rightarrow> reveal_env \<Rightarrow> reveal_state \<Rightarrow> nat \<Rightarrow> reveal_event list \<times> reveal_state" where
  "HiddenNFTApp_decryptMessage instance hasWallet publicClient env s0 tokenId =
     (if \<not> instance \<or> \<not> hasWallet \<or> \<not> publicClient then
        ([], s0\<lparr>app_decryptStatus := lit ''Encryption service is not ready.''\<rparr>)
      else
      (let s = s0\<lparr>app_activeDecrypt := Some tokenId, app_decryptStatus := []\<rparr> in
       case readContract_result env of
         Inl e \<Rightarrow> ([ReadGetEncryptedMessage tokenId], decryption_failed e s)
       | Inr handle \<Rightarrow>
       if \<not> truthy handle \<or> handle = lit ''0x'' \<or> handle = lit ''0x00'' then
         ([ReadGetEncryptedMessage tokenId],
          decryption_failed (Error (lit ''Message is empty for this token.'')) s)
       else if \<not> signer_available env then
         ([ReadGetEncryptedMessage tokenId, GenerateKeypair, CreateEIP712, AwaitSigner],
          decryption_failed (Error (lit ''Wallet signer unavailable'')) s)
       else
       (case signTypedData_result env of
         Inl e \<Rightarrow>
           ([ReadGetEncryptedMessage tokenId, GenerateKeypair, CreateEIP712, AwaitSigner,
             SignTypedData],
            decryption_failed e s)
       | Inr signature \<Rightarrow>
       (case userDecrypt_result env of
         Inl e \<Rightarrow>
           ([ReadGetEncryptedMessage tokenId, GenerateKeypair, CreateEIP712, AwaitSigner,
             SignTypedData, UserDecrypt handle],
            decryption_failed e s)
       | Inr decryptedValue \<Rightarrow>
           ([ReadGetEncryptedMessage tokenId, GenerateKeypair, CreateEIP712, AwaitSigner,
             SignTypedData, UserDecrypt handle],
            if \<not> configured decryptedValue
            then decryption_failed (Error (lit ''Decryption did not return a value.'')) s
            else s\<lparr>app_decryptedAttributes :=
                     (app_decryptedAttributes s)(toString tokenId \<mapsto> the decryptedValue),
                   app_activeDecrypt := None\<rparr>)))))"

text \<open>
  The contract read as the client sees it: the handle as a hex string of 32 bytes, or the
  revert as the error object the chain library makes of it (\<open>describe\<close>, which is the
  library's).
\<close>

definition bytes32 :: "uint256 \<Rightarrow> 8 word list" where
  "bytes32 v = map (\<lambda>i. ucast (drop_bit (8 * (31 - i)) v)) [0..<32]"

definition readContract_getEncryptedMessage ::
  "(revert \<Rightarrow> js_error) \<Rightarrow> contract \<Rightarrow> nat \<Rightarrow> js_error + js_string" where
  "readContract_getEncryptedMessage describe c tokenId =
     (case getEncryptedMessage c (of_nat tokenId) of
        Inl r \<Rightarrow> Inl (describe r)
      | Inr v \<Rightarrow> Inr (toHexString (bytes32 v)))"

section \<open>Reveals in flight\<close>

text \<open>
  The reveal of \<open>HiddenNFTAppV2Simple\<close> for tokens that are listed and not cached, as
  the steps between its suspension points. A click on a token's button, which is disabled
  while \<open>activeDecrypt\<close> is that token, sets \<open>activeDecrypt\<close> to the token and starts
  the contract read. When a read returns, that request calls the decryption; when it
  fails, or when the decryption settles, the \<open>finally\<close> block sets \<open>activeDecrypt\<close>
  to \<open>null\<close>. \<open>decryptCalls\<close> logs the token of every decryption call made.
\<close>

record reveal_ui =
  ui_activeDecrypt :: "nat option"
  reading :: "nat list"
  decrypting :: "nat list"
  decryptCalls :: "nat list"

datatype ui_event = Click nat | ReadReturns nat | ReadFails nat | DecryptSettles nat

fun ui_step :: "reveal_ui \<Rightarrow> ui_event \<Rightarrow> reveal_ui option" where
  "ui_step u (Click t) =
     (if ui_activeDecrypt u = Some t then None
      else Some (u\<lparr>ui_activeDecrypt := Some t, reading := reading u @ [t]\<rparr>))"
| "ui_step u (ReadReturns t) =
     (if t \<in> set (reading u)
      then Some (u\<lparr>reading := remove1 t (reading u), decrypting := decrypting u @ [t],
                  decryptCalls := decryptCalls u @ [t]\<rparr>)
      else None)"
| "ui_step u (ReadFails t) =
     (if t \<in> set (reading u)
      then Some (u\<lparr>reading := remove1 t (reading u), ui_activeDecrypt := None\<rparr>)
      else None)"
| "ui_step u (DecryptSettles t) =
     (if t \<in> set (decrypting u)
      then Some (u\<lparr>decrypting := remove1 t (decrypting u), ui_activeDecrypt := None\<rparr>)
      else None)"

fun ui_run :: "reveal_ui \<Rightarrow> ui_event list \<Rightarrow> reveal_ui option" where
  "ui_run u [] = Some u"
| "ui_run u (e # es) = (case ui_step u e of None \<Rightarrow> None | Some u1 \<Rightarrow> ui_run u1 es)"

definition idle :: reveal_ui where
  "idle = \<lparr>ui_activeDecrypt = None, reading = [], decrypting = [], decryptCalls = []\<rparr>"

section \<open>Example inputs\<close>

definition long_message_1 :: js_string where
  "long_message_1 = lit ''abcdefghijklmnopqrstuvwxyz012345 and a tail''"

definition long_message_2 :: js_string where
  "long_message_2 = lit ''abcdefghijklmnopqrstuvwxyz012345 with another ending''"

definition alice :: js_string where
  "alice = lit ''0xaaaaaaaaaaaaaaaaaaaaaaaaaaaaaaaaaaaaaaaa''"

definition bob :: js_string where
  "bob = lit ''0xBbBbBbBbBbBbBbBbBbBbBbBbBbBbBbBbBbBbBbBb''"

definition png :: "nat \<Rightarrow> File" where
  "png n = \<lparr>file_name = lit ''cat.png'', file_type = lit ''image/png'', file_size = n\<rparr>"

definition data_url :: js_string where
  "data_url = lit ''data:image/png;base64,iVBORw0KGgo=''"

text \<open>No pinning service configured; the file reader succeeds.\<close>

definition no_pinata :: upload_env where
  "no_pinata =
     \<lparr>VITE_PINATA_API_KEY = None, VITE_PINATA_API_SECRET = None, VITE_PINATA_GATEWAY = None,
      pinFileToIPFS_result = Inl (Error (lit ''Network Error'')),
      readAsDataURL_result = Some data_url\<rparr>"

definition fhe_ok :: fhe_env where
  "fhe_ok =
     \<lparr>initializeFHE_result = Inr (), getAddress_result = Inr alice,
      encrypt_result = (\<lambda>n a. Inr ([0x12, 0xAB], [0x01]))\<rparr>"

text \<open>
  A mint that goes through: the receipt's first log is the token's \<open>Transfer\<close> event,
  whose fourth topic is the new token id, 3.
\<close>

definition mint_ok :: mint_env where
  "mint_ok =
     \<lparr>upload = no_pinata, fhe = fhe_ok, getSigner_result = Inr (), mint_result = Inr (),
      mint_wait_result = Inr (Some \<lparr>logs = [[1, 0, 2, 3]]\<rparr>)\<rparr>"

definition transfer_ok :: transfer_env where
  "transfer_ok =
     \<lparr>transfer_getSigner_result = Inr (), transferFrom_result = Inr (),
      transfer_wait_result = Inr (Some \<lparr>logs = [[1, 2, 4, 3]]\<rparr>)\<rparr>"

text \<open>A chain library that refuses the call, as it does for a malformed address.\<close>

definition transfer_refused :: transfer_env where
  "transfer_refused =
     \<lparr>transfer_getSigner_result = Inr (),
      transferFrom_result = Inl (Error (lit ''invalid address'')),
      transfer_wait_result = Inr None\<rparr>"

definition blank :: app_state where
  "blank =
     \<lparr>wallet_address = Some alice, wallet_isConnected = True,
      mintValue = [], selectedImage = None, minting = False, mintStatus = [],
      transferToken = [], transferAddress = [], transferring = False, transferStatus = [],
      decryptedAttributes = Map.empty, activeDecrypt = None, decryptStatus = [],
      nfts = [], activeTab = MintTab, localStorage = Map.empty\<rparr>"

definition token3 :: NFTItem where
  "token3 =
     \<lparr>nft_tokenId = 3, nft_owner = alice, nft_imageUri = data_url,
      nft_message = lit ''[Encrypted on-chain with FHE]''\<rparr>"

text \<open>Alice about to mint \<open>hello\<close> with a 50 KB picture.\<close>

definition minting_hello :: app_state where
  "minting_hello = blank\<lparr>mintValue := lit ''hello'', selectedImage := Some (png 51200)\<rparr>"

text \<open>
  Alice, holding token 3 with its plaintext cached and shown, about to send it to Bob.
\<close>

definition sending_3 :: app_state where
  "sending_3 =
     blank\<lparr>transferToken := lit ''3'', transferAddress := bob, nfts := [token3],
           decryptedAttributes := [toString 3 \<mapsto> lit ''hello''],
           localStorage := [storage_key (Some alice) 3 \<mapsto> lit ''hello'']\<rparr>"

text \<open>A recipient with a leading blank, and one that is not hexadecimal.\<close>

definition padded_bob :: js_string where
  "padded_bob = lit '' 0xBbBbBbBbBbBbBbBbBbBbBbBbBbBbBbBbBbBbBbBb''"

definition invalid_hex :: js_string where
  "invalid_hex = lit ''0xZZZZZZZZZZZZZZZZZZZZZZZZZZZZZZZZZZZZZZZZ''"

text \<open>A message of 101 characters.\<close>

definition message_101 :: js_string where
  "message_101 = lit (''0123456789012345678901234567890123456789012345678901234567890123456789'' @
                      ''0123456789012345678901234567890'')"

definition alice_addr :: address where
  "alice_addr = 0xA11CE"

definition bob_addr :: address where
  "bob_addr = 0xB0B"

text \<open>
  An encryption library that accepts every input with a non-zero handle and lets the
  contract grant access on every handle.
\<close>

definition lib_ok :: fhe_library where
  "lib_ok =
     \<lparr>fromExternal = (\<lambda>c externalHandle proofBytes account.
                         if externalHandle = 0 then None else Some externalHandle),
      mayGrant = (\<lambda>c v. True)\<rparr>"

text \<open>
  The contract after Alice minted token 1 with handle \<open>0x77\<close>, and after she gave it
  to Bob.
\<close>

definition minted_1 :: contract where
  "minted_1 =
     \<lparr>this = 0xC0DE, owners = (\<lambda>t. 0)(1 := alice_addr), tokenApprovals = (\<lambda>t. 0),
      operatorApprovals = (\<lambda>a b. False), contract_owner = 0xDE, nextTokenId = 2,
      baseTokenURI = [], tokenMessages = (\<lambda>t. 0)(1 := 0x77),
      tokenImageURIs = (\<lambda>t. [])(1 := ''ipfs://cat''),
      allowed = {(0x77, alice_addr), (0x77, 0xC0DE)}\<rparr>"

definition transferred_1 :: contract where
  "transferred_1 =
     minted_1\<lparr>tokenApprovals := (tokenApprovals minted_1)(1 := 0),
              owners := (owners minted_1)(1 := bob_addr),
              allowed := insert (0x77, 0xC0DE) (insert (0x77, bob_addr) (allowed minted_1))\<rparr>"

text \<open>
  A receiver contract at \<open>0xFACE\<close> that, called back during its mint, mints once more
  (and accepts both tokens); and the contract after it minted with handle \<open>0x77\<close> and,
  from inside the callback, with handle \<open>0x88\<close>: the outer mint has token 1, the inner
  one token 2.
\<close>

definition minter :: address where
  "minter = 0xFACE"

definition mints_again :: calls where
  "mints_again = Call minter lib_ok (Mint 0x88 [] ''ipfs://dog'' Done True) Done"

definition minted_twice :: contract where
  "minted_twice =
     \<lparr>this = 0xC0DE, owners = (\<lambda>t. 0)(1 := minter, 2 := minter), tokenApprovals = (\<lambda>t. 0),
      operatorApprovals = (\<lambda>a b. False), contract_owner = 0xDE, nextTokenId = 3,
      baseTokenURI = [], tokenMessages = (\<lambda>t. 0)(2 := 0x88, 1 := 0x77),
      tokenImageURIs = (\<lambda>t. [])(2 := ''ipfs://dog'', 1 := ''ipfs://cat''),
      allowed = {(0x77, minter), (0x77, 0xC0DE), (0x88, minter), (0x88, 0xC0DE)}\<rparr>"

text \<open>
  A receiver that, called back during its mint, passes the new token 1 on to Bob.
\<close>

definition passes_on :: calls where
  "passes_on = Call minter lib_ok (TransferFrom minter bob_addr 1) Done"

text \<open>
  The contract after that receiver minted with handle \<open>0x77\<close>: Bob has token 1, and the
  access list names the contract and the minter.
\<close>

definition passed_on :: contract where
  "passed_on =
     \<lparr>this = 0xC0DE, owners = (\<lambda>t. 0)(1 := bob_addr), tokenApprovals = (\<lambda>t. 0)(1 := 0),
      operatorApprovals = (\<lambda>a b. False), contract_owner = 0xDE, nextTokenId = 2,
      baseTokenURI = [], tokenMessages = (\<lambda>t. 0)(1 := 0x77),
      tokenImageURIs = (\<lambda>t. [])(1 := ''ipfs://cat''),
      allowed = {(0x77, minter), (0x77, 0xC0DE)}\<rparr>"

text \<open>
  Two histories: the mint that mints again from its callback; and a third mint by the
  same receiver, which from its callback passes token 1 on to Bob.
\<close>

definition history_twice :: calls where
  "history_twice = Call minter lib_ok (Mint 0x77 [] ''ipfs://cat'' mints_again True) Done"

definition history_third :: calls where
  "history_third = Call minter lib_ok (Mint 0x99 [] ''ipfs://owl'' passes_on True) Done"

text \<open>A chain library that names the revert in its error message.\<close>

definition describe_revert :: "revert \<Rightarrow> js_error" where
  "describe_revert r =
     Error (case r of
              AttributeNotInitialized t \<Rightarrow> lit ''AttributeNotInitialized''
            | ERC721NonexistentToken t \<Rightarrow> lit ''ERC721NonexistentToken''
            | _ \<Rightarrow> lit ''execution reverted'')"

definition hidden :: reveal_state where
  "hidden = \<lparr>app_decryptedAttributes = Map.empty, app_activeDecrypt = None, app_decryptStatus = []\<rparr>"

text \<open>Collaborators that would all answer, reading token \<open>n\<close> from contract \<open>c\<close>.\<close>

definition reveal_from :: "contract \<Rightarrow> nat \<Rightarrow> reveal_env" where
  "reveal_from c n =
     \<lparr>readContract_result = readContract_getEncryptedMessage describe_revert c n,
      signer_available = True, signTypedData_result = Inr (lit ''0xsigned''),
      userDecrypt_result = Inr (Some (lit ''hello''))\<rparr>"

section \<open>The plaintext integer holds the first 32 bytes only\<close>

lemma or_push_bit_add:
  fixes a :: nat
  assumes "a < 2 ^ n"
  shows "a OR push_bit n b = a + push_bit n b"
proof -
  have "take_bit n a = a" using assms by (simp add: take_bit_nat_eq_self)
  then have "\<And>k. \<not> bit a k \<or> \<not> bit (push_bit n b) k"
    by (metis bit_take_bit_iff bit_push_bit_iff not_le)
  then show ?thesis by (rule disjunctive_add [symmetric])
qed

lemma pow256: "(256::nat) ^ i = 2 ^ (8 * i)"
proof -
  have "(256::nat) = 2 ^ 8" by simp
  then show ?thesis by (simp only: power_mult)
qed

lemma messageNum_loop_done:
  "\<not> i < min (length bs) 32 \<Longrightarrow> messageNum_loop bs i acc = acc"
  by (subst messageNum_loop.simps) (simp only: if_False)

lemma messageNum_loop_step:
  "i < min (length bs) 32 \<Longrightarrow>
   messageNum_loop bs i acc =
   messageNum_loop bs (i + 1) (acc OR push_bit (i * 8) (unat (bs ! i)))"
  by (subst messageNum_loop.simps) (simp only: if_True)

lemma byte_step:
  fixes b :: "8 word"
  assumes "acc < 2 ^ (8 * i)"
  shows "acc OR push_bit (i * 8) (unat b) = acc + unat b * 256 ^ i"
    and "acc + unat b * 256 ^ i < 2 ^ (8 * (i + 1))"
proof -
  have "unat b < 2 ^ LENGTH(8)" by (rule unsigned_less)
  then have b: "unat b \<le> 255" by simp
  have "acc OR push_bit (8 * i) (unat b) = acc + push_bit (8 * i) (unat b)"
    using assms by (rule or_push_bit_add)
  then show "acc OR push_bit (i * 8) (unat b) = acc + unat b * 256 ^ i"
    by (simp add: push_bit_eq_mult pow256 mult.commute)
  have "unat b * 256 ^ i \<le> 255 * 2 ^ (8 * i)"
    using b by (simp add: pow256)
  then have "acc + unat b * 256 ^ i < 2 ^ (8 * i) + 255 * 2 ^ (8 * i)"
    using assms by linarith
  also have "\<dots> = 2 ^ (8 * (i + 1))" by (simp add: power_add)
  finally show "acc + unat b * 256 ^ i < 2 ^ (8 * (i + 1))" .
qed

lemma messageNum_loop_sum:
  "acc < 2 ^ (8 * i) \<Longrightarrow> i \<le> min (length bs) 32 \<Longrightarrow>
   messageNum_loop bs i acc = acc + (\<Sum>k = i..<min (length bs) 32. unat (bs ! k) * 256 ^ k)"
proof (induction bs i acc rule: messageNum_loop.induct)
  case (1 bs i acc)
  show ?case
  proof (cases "i < min (length bs) 32")
    case True
    note eq = byte_step(1) [OF "1.prems"(1), of "bs ! i"]
    note lt = byte_step(2) [OF "1.prems"(1), of "bs ! i"]
    from True have le: "i + 1 \<le> min (length bs) 32" by simp
    have ih: "messageNum_loop bs (i + 1) (acc + unat (bs ! i) * 256 ^ i) =
       acc + unat (bs ! i) * 256 ^ i + (\<Sum>k = i + 1..<min (length bs) 32. unat (bs ! k) * 256 ^ k)"
      using "1.IH" [OF True] lt le unfolding eq by blast
    have split: "(\<Sum>k = i..<min (length bs) 32. unat (bs ! k) * 256 ^ k) =
       unat (bs ! i) * 256 ^ i + (\<Sum>k = i + 1..<min (length bs) 32. unat (bs ! k) * 256 ^ k)"
      using True by (simp add: sum.atLeast_Suc_lessThan)
    have "messageNum_loop bs i acc = messageNum_loop bs (i + 1) (acc + unat (bs ! i) * 256 ^ i)"
      using messageNum_loop_step [OF True] eq by simp
    with ih split show ?thesis by simp
  next
    case False
    with "1.prems"(2) have "min (length bs) 32 = i" by linarith
    then have "(\<Sum>k = i..<min (length bs) 32. unat (bs ! k) * 256 ^ k) = 0" by simp
    with messageNum_loop_done [OF False] show ?thesis by simp
  qed
qed

lemma messageNum_loop_bound:
  "acc < 2 ^ (8 * i) \<Longrightarrow> i \<le> min (length bs) 32 \<Longrightarrow>
   messageNum_loop bs i acc < 2 ^ (8 * min (length bs) 32)"
proof (induction bs i acc rule: messageNum_loop.induct)
  case (1 bs i acc)
  show ?case
  proof (cases "i < min (length bs) 32")
    case True
    note eq = byte_step(1) [OF "1.prems"(1), of "bs ! i"]
    note lt = byte_step(2) [OF "1.prems"(1), of "bs ! i"]
    from True have le: "i + 1 \<le> min (length bs) 32" by simp
    have ih: "messageNum_loop bs (i + 1) (acc + unat (bs ! i) * 256 ^ i)
        < 2 ^ (8 * min (length bs) 32)"
      using "1.IH" [OF True] lt le unfolding eq by blast
    have "messageNum_loop bs i acc = messageNum_loop bs (i + 1) (acc + unat (bs ! i) * 256 ^ i)"
      using messageNum_loop_step [OF True] eq by simp
    with ih show ?thesis by simp
  next
    case False
    with "1.prems"(2) have "min (length bs) 32 = i" by linarith
    with "1.prems"(1) messageNum_loop_done [OF False] show ?thesis by simp
  qed
qed

lemma messageNum_loop_take:
  "messageNum_loop (take 32 bs) i acc = messageNum_loop bs i acc"
proof (induction bs i acc rule: messageNum_loop.induct)
  case (1 bs i acc)
  show ?case
  proof (cases "i < min (length bs) 32")
    case True
    then have nth: "take 32 bs ! i = bs ! i" by simp
    from True have c: "i < min (length (take 32 bs)) 32" by simp
    have "messageNum_loop (take 32 bs) i acc =
        messageNum_loop (take 32 bs) (i + 1) (acc OR push_bit (i * 8) (unat (bs ! i)))"
      using messageNum_loop_step [OF c] nth by simp
    also have "\<dots> = messageNum_loop bs (i + 1) (acc OR push_bit (i * 8) (unat (bs ! i)))"
      using "1.IH" [OF True] .
    also have "\<dots> = messageNum_loop bs i acc"
      using messageNum_loop_step [OF True] by simp
    finally show ?thesis .
  next
    case False
    then have c: "\<not> i < min (length (take 32 bs)) 32" by simp
    show ?thesis
      by (simp only: messageNum_loop_done [OF False] messageNum_loop_done [OF c])
  qed
qed

text \<open>
  C3. \<open>encryptMessage\<close> packs the first 32 bytes of the message's UTF-8 encoding,
  least significant byte first, into the integer it hands to the relayer SDK. The integer
  fits 256 bits, it is the value encrypted whenever the SDK and the signer are available,
  and two messages whose encodings agree on their first 32 bytes give the same integer and
  the same call on the SDK: nothing beyond byte 32 reaches the chain.
\<close>

theorem encryptMessage_first_32_bytes:
  "messageNum_of message =
     (\<Sum>k = 0..<min (length (TextEncoder_encode message)) 32.
        unat (TextEncoder_encode message ! k) * 256 ^ k)
   \<and> messageNum_of message < 2 ^ 256
   \<and> messageNum_of message = messageNum_loop (take 32 (TextEncoder_encode message)) 0 0
   \<and> (initializeFHE_result env = Inr () \<and> getAddress_result env = Inr userAddress \<longrightarrow>
        encryptMessage env message =
          (case encrypt_result env (messageNum_of message) userAddress of
             Inl e \<Rightarrow> Inl (encrypt_failed e)
           | Inr (handle0, proof0) \<Rightarrow>
               Inr \<lparr>encryptedMessage = toHexString handle0, inputProof = toHexString proof0\<rparr>))
   \<and> (take 32 (TextEncoder_encode message) = take 32 (TextEncoder_encode message') \<longrightarrow>
        messageNum_of message = messageNum_of message'
        \<and> encryptMessage env message = encryptMessage env message')"
proof -
  let ?bs = "TextEncoder_encode message"
  have sum: "messageNum_of message = (\<Sum>k = 0..<min (length ?bs) 32. unat (?bs ! k) * 256 ^ k)"
    unfolding messageNum_of_def using messageNum_loop_sum [of 0 0 ?bs] by simp
  have "messageNum_of message < 2 ^ (8 * min (length ?bs) 32)"
    unfolding messageNum_of_def using messageNum_loop_bound [of 0 0 ?bs] by simp
  also have "(2::nat) ^ (8 * min (length ?bs) 32) \<le> 2 ^ 256"
    by (rule power_increasing) simp_all
  finally have bound: "messageNum_of message < 2 ^ 256" .
  have tk: "messageNum_of m = messageNum_loop (take 32 (TextEncoder_encode m)) 0 0" for m
    unfolding messageNum_of_def by (simp only: messageNum_loop_take)
  have enc: "initializeFHE_result env = Inr () \<and> getAddress_result env = Inr userAddress \<longrightarrow>
        encryptMessage env message =
          (case encrypt_result env (messageNum_of message) userAddress of
             Inl e \<Rightarrow> Inl (encrypt_failed e)
           | Inr (handle0, proof0) \<Rightarrow>
               Inr \<lparr>encryptedMessage = toHexString handle0, inputProof = toHexString proof0\<rparr>)"
    by (simp add: encryptMessage_def messageNum_of_def)
  have same: "messageNum_of message = messageNum_of message'
      \<and> encryptMessage env message = encryptMessage env message'"
    if "take 32 (TextEncoder_encode message) = take 32 (TextEncoder_encode message')"
  proof -
    from that have eq: "messageNum_of message = messageNum_of message'"
      by (simp only: tk [of message] tk [of message'])
    then have "messageNum_loop (TextEncoder_encode message) 0 0 =
        messageNum_loop (TextEncoder_encode message') 0 0"
      by (simp only: messageNum_of_def)
    then have "encryptMessage env message = encryptMessage env message'"
      by (simp add: encryptMessage_def Let_def split: sum.splits)
    with eq show ?thesis by simp
  qed
  from sum bound tk [of message] enc same show ?thesis by blast
qed

theorem encryptMessage_first_32_bytes_witness:
  "take 32 (TextEncoder_encode long_message_1) = take 32 (TextEncoder_encode long_message_2)
   \<and> long_message_1 \<noteq> long_message_2
   \<and> messageNum_of long_message_1 = messageNum_of long_message_2"
proof -
  have h: "take 32 (TextEncoder_encode long_message_1) = take 32 (TextEncoder_encode long_message_2)"
    by code_simp
  have d: "long_message_1 \<noteq> long_message_2"
    by code_simp
  from encryptMessage_first_32_bytes [of long_message_1 undefined undefined long_message_2] h d
  show ?thesis by blast
qed

section \<open>Number on a long string of digits\<close>

text \<open>
  The number of binary digits is the least \<open>k\<close> with \<open>n < 2^k\<close>. A number of
  \<open>2^1024\<close> or more has no double and is converted to \<open>Infinity\<close>; one just above
  \<open>2^53\<close> is rounded to a neighbour.
\<close>

lemma bit_length_upper: "n < 2 ^ bit_length n"
proof (induction n rule: bit_length.induct)
  case (1 n)
  show ?case
  proof (cases "n = 0")
    case True
    then show ?thesis by (subst bit_length.simps) simp
  next
    case False
    from 1 [OF False] have "n div 2 < 2 ^ bit_length (n div 2)" .
    then have "n < 2 * 2 ^ bit_length (n div 2)" by linarith
    then show ?thesis using False by (subst bit_length.simps) simp
  qed
qed

lemma bit_length_lower: "n \<noteq> 0 \<Longrightarrow> 2 ^ (bit_length n - 1) \<le> n"
proof (induction n rule: bit_length.induct)
  case (1 n)
  show ?case
  proof (cases "n div 2 = 0")
    case True
    then have "bit_length (n div 2) = 0" by (subst bit_length.simps) simp
    then have "bit_length n = 1" using 1(2) by (subst bit_length.simps) simp
    then show ?thesis using 1(2) by simp
  next
    case False
    from 1(1) [OF 1(2) False] have h: "2 ^ (bit_length (n div 2) - 1) \<le> n div 2" .
    have pos: "bit_length (n div 2) \<noteq> 0" using False by (subst bit_length.simps) simp
    have "bit_length n = Suc (bit_length (n div 2))" using 1(2) by (subst bit_length.simps) simp
    then have "(2::nat) ^ (bit_length n - 1) = 2 * 2 ^ (bit_length (n div 2) - 1)"
      using pos by (cases "bit_length (n div 2)") simp_all
    also have "\<dots> \<le> 2 * (n div 2)" using h by simp
    also have "\<dots> \<le> n" by simp
    finally show ?thesis .
  qed
qed

lemma mantissa_bound:
  assumes "n \<noteq> 0" and "Suc k \<le> bit_length n"
  shows "2 ^ (bit_length n - 1) \<le> (n div 2 ^ (bit_length n - Suc k)) * 2 ^ (bit_length n - Suc k)"
proof -
  define d where "d = bit_length n - Suc k"
  have bd: "bit_length n - 1 = k + d" using assms(2) by (simp add: d_def)
  have "(2::nat) ^ k * 2 ^ d = 2 ^ (bit_length n - 1)" by (simp only: bd power_add)
  also have "\<dots> \<le> n" by (rule bit_length_lower [OF assms(1)])
  finally have "(2::nat) ^ k * 2 ^ d \<le> n" .
  then have "(2::nat) ^ k \<le> n div 2 ^ d" by (simp add: less_eq_div_iff_mult_less_eq)
  then have "(2::nat) ^ k * 2 ^ d \<le> (n div 2 ^ d) * 2 ^ d" by (rule mult_le_mono1)
  then show ?thesis unfolding d_def [symmetric] by (simp only: bd power_add)
qed

lemma to_double_overflow:
  assumes "2 ^ 1024 \<le> n"
  shows "to_double n = None"
proof -
  define top :: nat where "top = 1024"
  define d where "d = bit_length n - 53"
  have le: "2 ^ top \<le> n" using assms by (simp add: top_def)
  then have n0: "n \<noteq> 0" by (cases "n = 0") simp_all
  have "(2::nat) ^ top < 2 ^ bit_length n" using le bit_length_upper [of n] by (rule le_less_trans)
  then have b: "top < bit_length n" by (rule power_less_imp_less_exp [rotated]) simp
  then have "Suc 52 \<le> bit_length n" by (simp add: top_def)
  from mantissa_bound [OF n0 this] have m: "2 ^ (bit_length n - 1) \<le> (n div 2 ^ d) * 2 ^ d"
    by (simp add: d_def)
  have "(2::nat) ^ top \<le> 2 ^ (bit_length n - 1)" using b by (intro power_increasing) simp_all
  with m have big: "(2::nat) ^ top \<le> (n div 2 ^ d) * 2 ^ d" by (rule order_trans [rotated])
  then have big1: "(2::nat) ^ top \<le> (n div 2 ^ d + 1) * 2 ^ d"
    by (simp add: add_mult_distrib)
  have "(2::nat) ^ 53 \<le> 2 ^ top" unfolding top_def by (intro power_increasing) simp_all
  with le have small: "\<not> n < 2 ^ 53" by simp
  have "to_double n =
          (if (if n mod 2 ^ d > 2 ^ (d - 1) \<or> (n mod 2 ^ d = 2 ^ (d - 1) \<and> odd (n div 2 ^ d))
               then n div 2 ^ d + 1 else n div 2 ^ d) * 2 ^ d \<ge> 2 ^ top
           then None
           else Some ((if n mod 2 ^ d > 2 ^ (d - 1) \<or> (n mod 2 ^ d = 2 ^ (d - 1) \<and> odd (n div 2 ^ d))
               then n div 2 ^ d + 1 else n div 2 ^ d) * 2 ^ d))"
    unfolding to_double_def Let_def d_def top_def using small by (simp only: if_False)
  also have "\<dots> = None" using big big1 by auto
  finally show ?thesis .
qed

lemma Number_token_rounds:
  "Number_token (lit ''9007199254740993'') = Some 9007199254740992"
  by (simp add: Number_token_def to_double_def bit_length.simps Let_def lit_def is_digit_def)

lemma foldl_zeros:
  "foldl (\<lambda>n c. 10 * n + (unat c - 48)) a (replicate k (0x30 :: 16 word)) = a * 10 ^ k"
  by (induction k arbitrary: a) simp_all

lemma Number_token_infinity:
  "Number_token (lit ''1'' @ replicate 309 0x30) = None"
proof -
  have "(2::nat) ^ 1024 \<le> 10 ^ 309" by simp
  then have "to_double (10 ^ 309) = None" by (rule to_double_overflow)
  then show ?thesis
    by (simp add: Number_token_def lit_def is_digit_def foldl_zeros list_all_length)
qed

section \<open>Facts about the handlers\<close>

lemma wallet_missing_upd [simp]:
  "wallet_missing (s\<lparr>mintStatus := x\<rparr>) = wallet_missing s"
  "wallet_missing (s\<lparr>transferStatus := y\<rparr>) = wallet_missing s"
  by (simp_all add: wallet_missing_def)

lemma truthy_trim: "truthy (trim m) \<Longrightarrow> truthy m"
  by (cases m) (auto simp: truthy_def trim_def)

lemma handleMint_confirmed:
  assumes "\<not> wallet_missing s" "selectedImage s = Some p" "truthy (trim (mintValue s))"
    and "uploadImage (upload env) p = Inr u"
    and "encryptMessage (fhe env) (mintValue s) = Inr enc"
    and "getSigner_result env = Inr x" "mint_result env = Inr y"
    and "mint_wait_result env = Inr (Some receipt)" "topic3 receipt = Some t"
  shows "fst (handleMint env s) =
           [UploadImage p, EncryptMessage (mintValue s), GetSigner,
            ContractMint (encryptedMessage enc) (inputProof enc) (imageUri u), TxWait,
            SetItem (storage_key (wallet_address s) t) (mintValue s)]"
    and "localStorage (snd (handleMint env s)) =
           (localStorage s)(storage_key (wallet_address s) t \<mapsto> mintValue s)"
    and "wallet_address (snd (handleMint env s)) = wallet_address s"
    and "mintStatus (snd (handleMint env s)) =
           [0x2705] @ lit '' NFT minted successfully! Check Etherscan for your transaction.''"
  using assms by (simp_all add: handleMint_def Let_def mint_confirmed_def)

lemma mint_confirmsE:
  assumes "mint_confirms env s t"
  obtains p u enc x y receipt where
    "\<not> wallet_missing s" "selectedImage s = Some p" "truthy (trim (mintValue s))"
    "uploadImage (upload env) p = Inr u"
    "encryptMessage (fhe env) (mintValue s) = Inr enc"
    "getSigner_result env = Inr x" "mint_result env = Inr y"
    "mint_wait_result env = Inr (Some receipt)" "topic3 receipt = Some t"
  using assms unfolding mint_confirms_def returns_def
  by (auto split: option.splits sum.splits)

lemma handleMint_upload_fails:
  assumes "\<not> wallet_missing s" "selectedImage s = Some f" "truthy (trim (mintValue s))"
    and "uploadImage (upload env) f = Inl e"
  shows "handleMint env s = ([UploadImage f], mint_failed e (s\<lparr>mintStatus := []\<rparr>))"
  using assms by (simp add: handleMint_def Let_def)

lemma handleMint_steps:
  "prefix (map step_of (fst (handleMint env s))) [Upload, Encrypt, Signer, Submit, Confirm, CacheWrite]"
  by (simp add: handleMint_def Let_def mint_confirmed_def
      split: option.splits sum.splits prod.splits)

lemma handleMint_needs:
  "Encrypt \<in> set (map step_of (fst (handleMint env s))) \<Longrightarrow> upload_returns env s"
  "Submit \<in> set (map step_of (fst (handleMint env s))) \<Longrightarrow>
     upload_returns env s \<and> returns (encryptMessage (fhe env) (mintValue s))
     \<and> returns (getSigner_result env)"
  "Confirm \<in> set (map step_of (fst (handleMint env s))) \<Longrightarrow> returns (mint_result env)"
  by (auto simp: handleMint_def Let_def mint_confirmed_def upload_returns_def returns_def
      split: option.splits sum.splits prod.splits if_splits)

lemma handleMint_cache_write:
  "CacheWrite \<in> set (map step_of (fst (handleMint env s))) \<Longrightarrow> \<exists>t. mint_confirms env s t"
  by (auto simp: handleMint_def Let_def mint_confirmed_def mint_confirms_def returns_def
      split: option.splits sum.splits prod.splits if_splits)

lemma handleMint_storage:
  "localStorage (snd (handleMint env s)) \<noteq> localStorage s \<Longrightarrow> \<exists>t. mint_confirms env s t"
  by (auto simp: handleMint_def Let_def mint_confirmed_def mint_confirms_def returns_def mint_failed_def
      split: option.splits sum.splits prod.splits if_splits)

lemma handleMint_rejects:
  "(fst (handleMint env s) = []) =
     (wallet_missing s \<or> selectedImage s = None \<or> \<not> truthy (trim (mintValue s)))"
  by (auto simp: handleMint_def Let_def
      split: option.splits sum.splits prod.splits if_splits)

lemma handleMint_uploads_first:
  "\<not> wallet_missing s \<Longrightarrow> selectedImage s = Some p \<Longrightarrow> truthy (trim (mintValue s)) \<Longrightarrow>
   \<exists>rest. fst (handleMint env s) = UploadImage p # rest"
  by (auto simp: handleMint_def Let_def
      split: option.splits sum.splits prod.splits if_splits)

lemma decryptMessage_cache_hit:
  assumes "localStorage s (storage_key (wallet_address s) t) = Some m" "truthy m"
    and "find (\<lambda>n. nft_tokenId n = t) (nfts s) \<noteq> None"
  shows "fst (decryptMessage r s t) = [GetItem (storage_key (wallet_address s) t)]"
    and "decryptedAttributes (snd (decryptMessage r s t)) (toString t) = Some m"
    and "decryptStatus (snd (decryptMessage r s t)) =
           [0x2705] @ lit '' Message revealed from local storage!''"
    and "activeDecrypt (snd (decryptMessage r s t)) = None"
  using assms by (auto simp: decryptMessage_def Let_def configured_def split: option.splits)

lemma handleTransfer_frame:
  "localStorage (snd (handleTransfer env s)) = localStorage s"
  "nfts (snd (handleTransfer env s)) = nfts s"
  "wallet_address (snd (handleTransfer env s)) = wallet_address s"
  "decryptedAttributes (snd (handleTransfer env s)) = decryptedAttributes s"
  by (simp_all add: handleTransfer_def Let_def transfer_failed_def
      split: option.splits sum.splits)

lemma handleTransfer_confirmed:
  assumes "\<not> wallet_missing s" "ZERO_ADDRESS_test (trim (transferAddress s))"
    and "Number_token (transferToken s) = Some t"
    and "transfer_getSigner_result env = Inr x" "transferFrom_result env = Inr y"
    and "transfer_wait_result env = Inr (Some receipt)"
  shows "handleTransfer env s =
     ([GetSigner, ContractTransferFrom (template (wallet_address s)) (transferAddress s) t, TxWait],
      s\<lparr>transferStatus := [0x2705] @
                  lit '' Transfer completed! Check Etherscan for your transaction.'',
        transferToken := [], transferAddress := [], transferring := False\<rparr>)"
  using assms by (simp add: handleTransfer_def Let_def)

lemma handleTransfer_refused:
  assumes "\<not> wallet_missing s" "ZERO_ADDRESS_test (trim (transferAddress s))"
    and "Number_token (transferToken s) = Some t"
    and "transfer_getSigner_result env = Inr x" "transferFrom_result env = Inl e"
  shows "handleTransfer env s =
     ([GetSigner, ContractTransferFrom (template (wallet_address s)) (transferAddress s) t],
      transfer_failed e (s\<lparr>transferStatus := []\<rparr>))"
  using assms by (simp add: handleTransfer_def Let_def)

lemma try_pinata_unconfigured:
  "\<not> configured (VITE_PINATA_API_KEY env) \<or> \<not> configured (VITE_PINATA_API_SECRET env) \<Longrightarrow>
   try_pinata env f = None"
  by (auto simp: try_pinata_def uploadToPinata_def)

subsection \<open>The example inputs, evaluated\<close>

lemma ex_png: "startsWith (file_type (png n)) (lit ''image/'')" "file_size (png n) = n"
  by (simp_all add: startsWith_def png_def lit_def)

lemma ex_no_pinata: "\<not> configured (VITE_PINATA_API_KEY no_pinata)" "try_pinata no_pinata f = None"
  by (simp_all add: no_pinata_def configured_def try_pinata_def)

lemma ex_upload_50k:
  "uploadImage no_pinata (png 51200) = Inr \<lparr>imageUri = data_url, previewUrl = data_url\<rparr>"
  using ex_png [of 51200] ex_no_pinata(2)
  by (simp add: uploadImage_def maxSize_def maxBase64Size_def uploadAsBase64_def no_pinata_def)

lemma ex_encrypt:
  "encryptMessage fhe_ok m =
     Inr \<lparr>encryptedMessage = toHexString [0x12, 0xAB], inputProof = toHexString [0x01]\<rparr>"
  by (simp add: encryptMessage_def fhe_ok_def Let_def)

lemma ex_wallet: "wallet_address s = Some alice \<Longrightarrow> wallet_isConnected s \<Longrightarrow> \<not> wallet_missing s"
  by (simp add: wallet_missing_def configured_def truthy_def alice_def lit_def)

lemma ex_minting_wallet:
  "\<not> wallet_missing minting_hello"
  "\<not> wallet_missing (minting_hello\<lparr>mintValue := m\<rparr>)"
  "\<not> wallet_missing (minting_hello\<lparr>selectedImage := f\<rparr>)"
  by (rule ex_wallet; simp add: minting_hello_def blank_def)+

lemma ex_hello: "truthy (trim (lit ''hello''))"
  by (simp add: truthy_def trim_def lit_def is_space_def)

lemma ex_topic: "topic3 \<lparr>logs = [[1, 0, 2, 3]]\<rparr> = Some 3"
  by (simp add: topic3_def)

lemma ex_mint_confirms: "mint_confirms mint_ok minting_hello 3"
  unfolding mint_confirms_def
  using ex_upload_50k ex_encrypt [of "lit ''hello''"] ex_hello ex_topic ex_minting_wallet(1)
  by (simp add: minting_hello_def mint_ok_def returns_def)

lemma ex_bob: "ZERO_ADDRESS_test (trim bob)"
  by (simp add: ZERO_ADDRESS_test_def trim_def bob_def lit_def is_space_def is_hex_def)

lemma ex_token: "Number_token (lit ''3'') = Some 3"
  by (simp add: Number_token_def to_double_def lit_def is_digit_def)

lemma ex_padded: "ZERO_ADDRESS_test (trim padded_bob)" "\<not> ZERO_ADDRESS_test padded_bob"
  by (simp_all add: ZERO_ADDRESS_test_def trim_def padded_bob_def lit_def is_space_def is_hex_def)

lemma ex_invalid: "\<not> ZERO_ADDRESS_test (trim invalid_hex)"
  by (simp add: ZERO_ADDRESS_test_def trim_def invalid_hex_def lit_def is_space_def is_hex_def)

lemma ex_sending_wallet:
  "\<not> wallet_missing (sending_3\<lparr>transferAddress := a\<rparr>)" "\<not> wallet_missing sending_3"
  by (rule ex_wallet; simp add: sending_3_def blank_def)+

section \<open>Mint and reveal\<close>

text \<open>
  C2. A token minted by an account with message \<open>m\<close> is revealed from the local cache:
  once the mint is confirmed with token id \<open>tokenId\<close> in its receipt, a reveal of that
  token by the same account, in any later state with the same \<open>localStorage\<close> whose
  gallery lists the token (the reveal button exists only for listed tokens), reads the
  cache only, makes no contract read and no decryption call whatever the contract would
  have answered, and shows exactly \<open>m\<close>.
\<close>

theorem mint_then_reveal_from_cache:
  assumes "mint_confirms env s tokenId"
    and "localStorage s1 = localStorage (snd (handleMint env s))"
    and "wallet_address s1 = wallet_address s"
    and "find (\<lambda>n. nft_tokenId n = tokenId) (nfts s1) \<noteq> None"
  shows "fst (decryptMessage r s1 tokenId) = [GetItem (storage_key (wallet_address s) tokenId)]
       \<and> decryptedAttributes (snd (decryptMessage r s1 tokenId)) (toString tokenId) = Some (mintValue s)
       \<and> decryptStatus (snd (decryptMessage r s1 tokenId)) =
           [0x2705] @ lit '' Message revealed from local storage!''"
proof -
  from assms(1) obtain p u enc x y receipt where c:
    "\<not> wallet_missing s" "selectedImage s = Some p" "truthy (trim (mintValue s))"
    "uploadImage (upload env) p = Inr u"
    "encryptMessage (fhe env) (mintValue s) = Inr enc"
    "getSigner_result env = Inr x" "mint_result env = Inr y"
    "mint_wait_result env = Inr (Some receipt)" "topic3 receipt = Some tokenId"
    by (rule mint_confirmsE)
  have "localStorage s1 (storage_key (wallet_address s1) tokenId) = Some (mintValue s)"
    using handleMint_confirmed(2) [OF c] assms(2,3) by simp
  moreover have "truthy (mintValue s)" using c(3) by (rule truthy_trim)
  ultimately show ?thesis
    using decryptMessage_cache_hit [of s1 tokenId "mintValue s" r] assms(3,4) by simp
qed

theorem mint_then_reveal_from_cache_witness:
  "mint_confirms mint_ok minting_hello 3
   \<and> fst (decryptMessage (Inl (Error [])) ((snd (handleMint mint_ok minting_hello))\<lparr>nfts := [token3]\<rparr>) 3)
       = [GetItem (storage_key (Some alice) 3)]
   \<and> decryptedAttributes
         (snd (decryptMessage (Inl (Error [])) ((snd (handleMint mint_ok minting_hello))\<lparr>nfts := [token3]\<rparr>) 3))
         (toString 3) = Some (lit ''hello'')"
proof -
  let ?s1 = "(snd (handleMint mint_ok minting_hello))\<lparr>nfts := [token3]\<rparr>"
  have h2: "localStorage ?s1 = localStorage (snd (handleMint mint_ok minting_hello))" by simp
  have h3: "wallet_address ?s1 = wallet_address minting_hello"
    by (rule mint_confirmsE [OF ex_mint_confirms]) (simp add: handleMint_confirmed(3))
  have h4: "find (\<lambda>n. nft_tokenId n = 3) (nfts ?s1) \<noteq> None" by (simp add: token3_def)
  from mint_then_reveal_from_cache [OF ex_mint_confirms h2 h3 h4, of "Inl (Error [])"] ex_mint_confirms
  show ?thesis by (simp add: minting_hello_def blank_def)
qed

text \<open>
  C6. The calls of one mint are a prefix of upload, encrypt, signer, submit, confirm,
  cache write, in that order and each at most once. A step is reached only when every
  earlier one returned: no transaction is submitted unless the upload, the encryption and
  the signer returned, the confirmation is awaited only for a submitted transaction, and
  the cache is written, or \<open>localStorage\<close> changed at all, only by a confirmed mint.
\<close>

theorem mint_steps_in_order:
  "prefix (map step_of (fst (handleMint env s)))
     [Upload, Encrypt, Signer, Submit, Confirm, CacheWrite]
   \<and> (Encrypt \<in> set (map step_of (fst (handleMint env s))) \<longrightarrow> upload_returns env s)
   \<and> (Submit \<in> set (map step_of (fst (handleMint env s))) \<longrightarrow>
        upload_returns env s \<and> returns (encryptMessage (fhe env) (mintValue s))
        \<and> returns (getSigner_result env))
   \<and> (Confirm \<in> set (map step_of (fst (handleMint env s))) \<longrightarrow> returns (mint_result env))
   \<and> (CacheWrite \<in> set (map step_of (fst (handleMint env s))) \<longrightarrow>
        (\<exists>t. mint_confirms env s t))
   \<and> (localStorage (snd (handleMint env s)) \<noteq> localStorage s \<longrightarrow>
        (\<exists>t. mint_confirms env s t))"
  using handleMint_steps [of env s] handleMint_needs [of env s]
    handleMint_cache_write [of env s] handleMint_storage [of env s]
  by blast

theorem mint_steps_in_order_witness:
  "map step_of (fst (handleMint mint_ok minting_hello))
     = [Upload, Encrypt, Signer, Submit, Confirm, CacheWrite]
   \<and> upload_returns mint_ok minting_hello
   \<and> returns (encryptMessage (fhe mint_ok) (mintValue minting_hello))
   \<and> returns (getSigner_result mint_ok) \<and> returns (mint_result mint_ok)
   \<and> mint_confirms mint_ok minting_hello 3
   \<and> map step_of (fst (handleMint mint_ok (minting_hello\<lparr>selectedImage := Some (png 204800)\<rparr>)))
     = [Upload]"
proof -
  have steps: "map step_of (fst (handleMint mint_ok minting_hello))
     = [Upload, Encrypt, Signer, Submit, Confirm, CacheWrite]"
    by (rule mint_confirmsE [OF ex_mint_confirms]) (simp add: handleMint_confirmed(1))
  let ?big = "minting_hello\<lparr>selectedImage := Some (png 204800)\<rparr>"
  have "uploadImage (upload mint_ok) (png 204800) = Inl (too_large_for_chain 204800)"
    using ex_png [of 204800] ex_no_pinata(2)
    by (simp add: uploadImage_def maxSize_def maxBase64Size_def mint_ok_def)
  moreover have "\<not> wallet_missing ?big" "truthy (trim (mintValue ?big))"
    using ex_minting_wallet(3) ex_hello by (simp_all add: minting_hello_def)
  ultimately have big: "map step_of (fst (handleMint mint_ok ?big)) = [Upload]"
    using handleMint_upload_fails [of ?big "png 204800" mint_ok] by simp
  have "Submit \<in> set (map step_of (fst (handleMint mint_ok minting_hello)))"
    "Confirm \<in> set (map step_of (fst (handleMint mint_ok minting_hello)))"
    by (simp_all add: steps)
  with mint_steps_in_order [of mint_ok minting_hello] steps big ex_mint_confirms
  show ?thesis by simp
qed

text \<open>
  C4, as the code has it. \<open>handleMint\<close> turns a request down before calling any
  collaborator exactly when the wallet is missing, no picture is selected, or the message is
  blank after trimming. It never looks at the length of the message (the limit of 100
  characters is the \<open>maxLength\<close> of the form's text area): a non-blank message of 101
  characters that reaches the handler is treated like any other, starting with the upload.
\<close>

theorem handleMint_validation:
  "(fst (handleMint env s) = []) =
     (wallet_missing s \<or> selectedImage s = None \<or> \<not> truthy (trim (mintValue s)))
   \<and> (length (mintValue s) = 101 \<and> \<not> wallet_missing s \<and> selectedImage s = Some p
        \<and> truthy (trim (mintValue s)) \<longrightarrow>
      (\<exists>rest. fst (handleMint env s) = UploadImage p # rest))"
  using handleMint_rejects [of env s] handleMint_uploads_first [of s p env]
  by blast

lemma ex_message_101: "length message_101 = 101" "truthy (trim message_101)"
  by (simp_all add: message_101_def lit_def truthy_def trim_def is_space_def)

theorem handleMint_validation_witness:
  "length message_101 = 101
   \<and> hd (fst (handleMint mint_ok (minting_hello\<lparr>mintValue := message_101\<rparr>))) = UploadImage (png 51200)
   \<and> fst (handleMint mint_ok (minting_hello\<lparr>mintValue := message_101\<rparr>)) \<noteq> []"
proof -
  let ?s = "minting_hello\<lparr>mintValue := message_101\<rparr>"
  have pre: "length (mintValue ?s) = 101 \<and> \<not> wallet_missing ?s
      \<and> selectedImage ?s = Some (png 51200) \<and> truthy (trim (mintValue ?s))"
    using ex_message_101 ex_minting_wallet(2) by (simp add: minting_hello_def)
  with handleMint_validation [of mint_ok ?s "png 51200"] ex_message_101(1)
  show ?thesis by auto
qed

text \<open>
  The claim as stated fails: with a message of 101 characters the mint runs through every
  step and the message is cached.
\<close>

theorem message_101_counterexample:
  "length (mintValue (minting_hello\<lparr>mintValue := message_101\<rparr>)) = 101
   \<and> map step_of (fst (handleMint mint_ok (minting_hello\<lparr>mintValue := message_101\<rparr>)))
       = [Upload, Encrypt, Signer, Submit, Confirm, CacheWrite]
   \<and> mintStatus (snd (handleMint mint_ok (minting_hello\<lparr>mintValue := message_101\<rparr>)))
       = [0x2705] @ lit '' NFT minted successfully! Check Etherscan for your transaction.''"
proof -
  let ?s = "minting_hello\<lparr>mintValue := message_101\<rparr>"
  have a: "\<not> wallet_missing ?s" "selectedImage ?s = Some (png 51200)"
      "truthy (trim (mintValue ?s))"
    using ex_message_101 ex_minting_wallet(2) by (simp_all add: minting_hello_def)
  have b: "uploadImage (upload mint_ok) (png 51200) = Inr \<lparr>imageUri = data_url, previewUrl = data_url\<rparr>"
      "encryptMessage (fhe mint_ok) (mintValue ?s) =
         Inr \<lparr>encryptedMessage = toHexString [0x12, 0xAB], inputProof = toHexString [0x01]\<rparr>"
      "getSigner_result mint_ok = Inr ()" "mint_result mint_ok = Inr ()"
      "mint_wait_result mint_ok = Inr (Some \<lparr>logs = [[1, 0, 2, 3]]\<rparr>)"
    using ex_upload_50k ex_encrypt by (simp_all add: mint_ok_def)
  note r = handleMint_confirmed [OF a b ex_topic]
  show ?thesis using ex_message_101(1) by (simp add: r(1) r(4))
qed

section \<open>Transfer\<close>

text \<open>
  C1, as the code has it. \<open>handleTransfer\<close> never touches \<open>localStorage\<close>: whatever
  the outcome of the transfer, the cache is the one it started with. A plaintext cached
  under (account, token) is therefore still returned, from the cache alone, by a reveal of
  that token from a gallery that still lists it.
\<close>

theorem transfer_keeps_cache:
  "localStorage (snd (handleTransfer env s)) = localStorage s
   \<and> (localStorage s (storage_key (wallet_address s) tokenId) = Some m \<and> truthy m
        \<and> find (\<lambda>n. nft_tokenId n = tokenId) (nfts s) \<noteq> None \<longrightarrow>
      fst (decryptMessage r (snd (handleTransfer env s)) tokenId)
        = [GetItem (storage_key (wallet_address s) tokenId)]
      \<and> decryptedAttributes (snd (decryptMessage r (snd (handleTransfer env s)) tokenId))
          (toString tokenId) = Some m)"
  using decryptMessage_cache_hit(1,2) [of "snd (handleTransfer env s)" tokenId m r]
  by (simp add: handleTransfer_frame)

lemma ex_sending_3:
  "localStorage sending_3 (storage_key (Some alice) 3) = Some (lit ''hello'')"
  "find (\<lambda>n. nft_tokenId n = 3) (nfts sending_3) \<noteq> None"
  "decryptedAttributes sending_3 (toString 3) = Some (lit ''hello'')"
  "transferAddress sending_3 = bob" "transferToken sending_3 = lit ''3''"
  "wallet_address sending_3 = Some alice"
  by (simp_all add: sending_3_def blank_def token3_def)

theorem transfer_keeps_cache_witness:
  "localStorage sending_3 (storage_key (Some alice) 3) = Some (lit ''hello'')
   \<and> fst (decryptMessage (Inl (Error [])) (snd (handleTransfer transfer_ok sending_3)) 3)
        = [GetItem (storage_key (Some alice) 3)]
   \<and> decryptedAttributes (snd (decryptMessage (Inl (Error [])) (snd (handleTransfer transfer_ok sending_3)) 3))
          (toString 3) = Some (lit ''hello'')"
  using transfer_keeps_cache [of transfer_ok sending_3 3 "lit ''hello''" "Inl (Error [])"]
    truthy_trim [OF ex_hello]
  by (simp add: ex_sending_3)

text \<open>
  The claim as stated fails: Alice's transfer of token 3 to Bob is confirmed, and
  afterwards the cache entry is still there, the revealed text is still shown, and a new
  reveal returns the cached plaintext.
\<close>

theorem transfer_purge_counterexample:
  "handleTransfer transfer_ok sending_3 =
     ([GetSigner, ContractTransferFrom alice bob 3, TxWait],
      sending_3\<lparr>transferStatus := [0x2705] @
                  lit '' Transfer completed! Check Etherscan for your transaction.'',
        transferToken := [], transferAddress := [], transferring := False\<rparr>)
   \<and> localStorage (snd (handleTransfer transfer_ok sending_3)) (storage_key (Some alice) 3)
       = Some (lit ''hello'')
   \<and> decryptedAttributes (snd (handleTransfer transfer_ok sending_3)) (toString 3)
       = Some (lit ''hello'')
   \<and> decryptedAttributes
        (snd (decryptMessage (Inl (Error [])) (snd (handleTransfer transfer_ok sending_3)) 3))
        (toString 3) = Some (lit ''hello'')"
proof -
  have run: "handleTransfer transfer_ok sending_3 =
     ([GetSigner, ContractTransferFrom (template (wallet_address sending_3))
         (transferAddress sending_3) 3, TxWait],
      sending_3\<lparr>transferStatus := [0x2705] @
                  lit '' Transfer completed! Check Etherscan for your transaction.'',
        transferToken := [], transferAddress := [], transferring := False\<rparr>)"
    by (rule handleTransfer_confirmed
          [where x = "()" and y = "()" and receipt = "\<lparr>logs = [[1, 2, 4, 3]]\<rparr>"])
       (simp_all add: ex_sending_wallet ex_sending_3 ex_bob ex_token transfer_ok_def)
  have hello: "truthy (lit ''hello'')" using ex_hello by (rule truthy_trim)
  have "decryptedAttributes
        (snd (decryptMessage (Inl (Error [])) (snd (handleTransfer transfer_ok sending_3)) 3))
        (toString 3) = Some (lit ''hello'')"
    by (rule decryptMessage_cache_hit(2)) (simp_all add: handleTransfer_frame ex_sending_3 hello)
  then show ?thesis
    using run ex_sending_3 by (simp add: handleTransfer_frame template_def)
qed

text \<open>
  C10, as the code has it. The pattern is tested on the recipient field with the white
  space at its ends removed. When the trimmed field does not match, the handler stops with
  a message (the wallet's, when no wallet is connected) and calls no collaborator: no
  signer is requested and no transaction is submitted.
\<close>

theorem handleTransfer_rejects_bad_address:
  assumes "\<not> ZERO_ADDRESS_test (trim (transferAddress s))"
  shows "handleTransfer env s =
           ([], s\<lparr>transferStatus :=
                   (if wallet_missing s
                    then [0xD83D, 0xDCBC] @ lit '' Please connect your wallet first.''
                    else lit ''Enter a valid Ethereum address (0x...)'')\<rparr>)"
  using assms by (simp add: handleTransfer_def Let_def)

theorem handleTransfer_rejects_bad_address_witness:
  "\<not> ZERO_ADDRESS_test (trim invalid_hex)
   \<and> handleTransfer transfer_ok (sending_3\<lparr>transferAddress := invalid_hex\<rparr>) =
       ([], sending_3\<lparr>transferAddress := invalid_hex,
                      transferStatus := lit ''Enter a valid Ethereum address (0x...)''\<rparr>)"
proof -
  have h: "\<not> ZERO_ADDRESS_test (trim (transferAddress (sending_3\<lparr>transferAddress := invalid_hex\<rparr>)))"
    using ex_invalid by simp
  from handleTransfer_rejects_bad_address [OF h, of transfer_ok] ex_invalid
    ex_sending_wallet(1) [of invalid_hex]
  show ?thesis by simp
qed

text \<open>
  The claim as stated fails: a recipient with a leading blank does not match the pattern,
  yet it passes the check, and the handler goes on to request the signer and to call
  \<open>transferFrom\<close> with the field as typed. With a chain library that takes the call the
  transfer is confirmed; with one that refuses it the status is the library's error, not
  the validation message.
\<close>

theorem padded_address_counterexample:
  "\<not> ZERO_ADDRESS_test padded_bob
   \<and> handleTransfer transfer_ok (sending_3\<lparr>transferAddress := padded_bob\<rparr>) =
       ([GetSigner, ContractTransferFrom alice padded_bob 3, TxWait],
        sending_3\<lparr>transferStatus := [0x2705] @
                  lit '' Transfer completed! Check Etherscan for your transaction.'',
        transferToken := [], transferAddress := [], transferring := False\<rparr>)
   \<and> handleTransfer transfer_refused (sending_3\<lparr>transferAddress := padded_bob\<rparr>) =
       ([GetSigner, ContractTransferFrom alice padded_bob 3],
        sending_3\<lparr>transferAddress := padded_bob,
                  transferStatus := [0x274C] @ lit '' invalid address''\<rparr>)"
proof -
  let ?s = "sending_3\<lparr>transferAddress := padded_bob\<rparr>"
  have ok: "handleTransfer transfer_ok ?s =
     ([GetSigner, ContractTransferFrom (template (wallet_address ?s)) (transferAddress ?s) 3, TxWait],
      ?s\<lparr>transferStatus := [0x2705] @
                  lit '' Transfer completed! Check Etherscan for your transaction.'',
        transferToken := [], transferAddress := [], transferring := False\<rparr>)"
    by (rule handleTransfer_confirmed
          [where x = "()" and y = "()" and receipt = "\<lparr>logs = [[1, 2, 4, 3]]\<rparr>"])
       (simp_all add: ex_sending_wallet ex_sending_3 ex_padded ex_token transfer_ok_def)
  have refused: "handleTransfer transfer_refused ?s =
     ([GetSigner, ContractTransferFrom (template (wallet_address ?s)) (transferAddress ?s) 3],
      transfer_failed (Error (lit ''invalid address'')) (?s\<lparr>transferStatus := []\<rparr>))"
    by (rule handleTransfer_refused [where x = "()"])
       (simp_all add: ex_sending_wallet ex_sending_3 ex_padded ex_token transfer_refused_def)
  have idle: "transferring sending_3 = False" by (simp add: sending_3_def blank_def)
  show ?thesis using ok refused ex_padded(2) idle
    by (simp add: ex_sending_3 template_def transfer_failed_def Error_def or_else_def truthy_def lit_def)
qed

section \<open>Upload\<close>

text \<open>
  C5, as the code has it. With no pinning credentials configured, an image file larger
  than the inline ceiling (strictly more than 100 KB) is refused with a size error: the
  10 MB message above 10 MB, the on-chain storage message otherwise. A mint with such a
  picture stops after the upload: no encryption, no transaction, no cache write.
\<close>

theorem uploadImage_inline_ceiling:
  assumes "startsWith (file_type f) (lit ''image/'')"
    and "\<not> configured (VITE_PINATA_API_KEY (upload env))
         \<or> \<not> configured (VITE_PINATA_API_SECRET (upload env))"
    and "file_size f > maxBase64Size"
  shows "uploadImage (upload env) f =
           Inl (if file_size f > maxSize then Error (lit ''Image must be less than 10MB'')
                else too_large_for_chain (file_size f))
       \<and> (\<not> wallet_missing s \<and> selectedImage s = Some f \<and> truthy (trim (mintValue s)) \<longrightarrow>
            fst (handleMint env s) = [UploadImage f]
            \<and> localStorage (snd (handleMint env s)) = localStorage s)"
proof -
  have up: "uploadImage (upload env) f =
           Inl (if file_size f > maxSize then Error (lit ''Image must be less than 10MB'')
                else too_large_for_chain (file_size f))"
    using assms(1,3) try_pinata_unconfigured [OF assms(2)]
    by (simp add: uploadImage_def)
  show ?thesis
    using up handleMint_upload_fails [OF _ _ _ up, of s]
    by (simp add: mint_failed_def)
qed

theorem uploadImage_inline_ceiling_witness:
  "uploadImage no_pinata (png 102401) = Inl (too_large_for_chain 102401)
   \<and> fst (handleMint mint_ok (minting_hello\<lparr>selectedImage := Some (png 102401)\<rparr>))
       = [UploadImage (png 102401)]"
proof -
  let ?s = "minting_hello\<lparr>selectedImage := Some (png 102401)\<rparr>"
  have h2: "\<not> configured (VITE_PINATA_API_KEY (upload mint_ok))
         \<or> \<not> configured (VITE_PINATA_API_SECRET (upload mint_ok))"
    using ex_no_pinata(1) by (simp add: mint_ok_def)
  have h3: "file_size (png 102401) > maxBase64Size"
    by (simp add: ex_png maxBase64Size_def)
  have s: "\<not> wallet_missing ?s" "selectedImage ?s = Some (png 102401)" "truthy (trim (mintValue ?s))"
    using ex_minting_wallet(3) ex_hello by (simp_all add: minting_hello_def)
  have sz: "\<not> file_size (png 102401) > maxSize" by (simp add: ex_png maxSize_def)
  from uploadImage_inline_ceiling [OF ex_png(1) h2 h3, of ?s] s sz
  show ?thesis by (simp add: mint_ok_def ex_png)
qed

text \<open>
  The claim as stated fails at the ceiling itself: a file of exactly 100 KB is inlined.
\<close>

theorem exactly_100KB_counterexample:
  "file_size (png 102400) \<ge> 100 * 1024
   \<and> \<not> configured (VITE_PINATA_API_KEY no_pinata)
   \<and> uploadImage no_pinata (png 102400) = Inr \<lparr>imageUri = data_url, previewUrl = data_url\<rparr>"
  using ex_png [of 102400] ex_no_pinata
  by (simp add: uploadImage_def maxSize_def maxBase64Size_def uploadAsBase64_def no_pinata_def)

text \<open>
  The second copy of the module has no inline ceiling at all: it inlines a 200 KB file.
\<close>

lemma part_003_inlines_200KB:
  "uploadImage_part_003 no_pinata (png 204800) = Inr \<lparr>imageUri = data_url, previewUrl = data_url\<rparr>"
  using ex_png [of 204800] ex_no_pinata(1)
  by (simp add: uploadImage_part_003_def maxSize_def uploadAsBase64_def no_pinata_def)

section \<open>The contract never rewrites a stored ciphertext\<close>

lemma ERC721_update_result:
  assumes "ERC721_update c to tokenId auth = Inr (c1, previousOwner)"
  shows "tokenMessages c1 = tokenMessages c" "tokenImageURIs c1 = tokenImageURIs c"
    and "owners c1 = (owners c)(tokenId := to)" "previousOwner = owners c tokenId"
  using assms by (auto simp: ERC721_update_def Let_def split: if_splits)

lemma FHE_allow_result:
  assumes "FHE_allow lib c v account = Inr c1"
  shows "c1 = c\<lparr>allowed := insert (v, account) (allowed c)\<rparr>"
  using assms by (simp add: FHE_allow_def split: if_splits)

lemma FHE_allowThis_result:
  assumes "FHE_allowThis lib c v = Inr c1"
  shows "c1 = c\<lparr>allowed := insert (v, this c) (allowed c)\<rparr>"
  using assms by (simp add: FHE_allowThis_def FHE_allow_def split: if_splits)

lemma update_result:
  assumes "HiddenAttributeNFT_update lib c to tokenId auth = Inr (c1, previousOwner)"
  shows "tokenMessages c1 = tokenMessages c" "tokenImageURIs c1 = tokenImageURIs c"
    and "owners c1 = (owners c)(tokenId := to)" "previousOwner = owners c tokenId"
    and "to \<noteq> 0 \<Longrightarrow> FHE_isInitialized (tokenMessages c tokenId) \<Longrightarrow>
           (tokenMessages c tokenId, to) \<in> allowed c1"
proof -
  obtain c0 p0 where base: "ERC721_update c to tokenId auth = Inr (c0, p0)"
    using assms by (cases "ERC721_update c to tokenId auth")
      (auto simp: HiddenAttributeNFT_update_def)
  define message where "message = tokenMessages c0 tokenId"
  from assms have rest:
    "(if to \<noteq> 0 then
        (if FHE_isInitialized message then
           (case FHE_allow lib c0 message to of
              Inl r \<Rightarrow> Inl r
            | Inr c2 \<Rightarrow>
                (case FHE_allowThis lib c2 message of
                   Inl r \<Rightarrow> Inl r
                 | Inr c3 \<Rightarrow> Inr (c3, p0)))
         else Inr (c0, p0))
      else Inr (c0, p0)) = (Inr (c1, previousOwner) :: revert + contract \<times> address)"
    unfolding HiddenAttributeNFT_update_def Let_def message_def
    by (simp only: base sum.case prod.case)
  note b = ERC721_update_result [OF base]
  have
    "p0 = previousOwner \<and> tokenMessages c1 = tokenMessages c0
     \<and> tokenImageURIs c1 = tokenImageURIs c0 \<and> owners c1 = owners c0
     \<and> (to \<noteq> 0 \<and> FHE_isInitialized message \<longrightarrow> (message, to) \<in> allowed c1)"
  proof (cases "to \<noteq> 0 \<and> FHE_isInitialized message")
    case False
    with rest show ?thesis by (auto split: if_splits)
  next
    case True
    with rest have r:
      "(case FHE_allow lib c0 message to of
              Inl r \<Rightarrow> Inl r
            | Inr c2 \<Rightarrow>
                (case FHE_allowThis lib c2 message of
                   Inl r \<Rightarrow> Inl r
                 | Inr c3 \<Rightarrow> Inr (c3, p0))) = (Inr (c1, previousOwner) :: revert + contract \<times> address)"
      by simp
    obtain c2 where g1: "FHE_allow lib c0 message to = Inr c2"
      using r by (cases "FHE_allow lib c0 message to") simp_all
    obtain c3 where g2: "FHE_allowThis lib c2 message = Inr c3"
      using r g1 by (cases "FHE_allowThis lib c2 message") simp_all
    from r g1 g2 have "c3 = c1" "p0 = previousOwner" by simp_all
    with FHE_allow_result [OF g1] FHE_allowThis_result [OF g2]
    show ?thesis by auto
  qed
  then show "tokenMessages c1 = tokenMessages c" "tokenImageURIs c1 = tokenImageURIs c"
    "owners c1 = (owners c)(tokenId := to)" "previousOwner = owners c tokenId"
    "to \<noteq> 0 \<Longrightarrow> FHE_isInitialized (tokenMessages c tokenId) \<Longrightarrow>
       (tokenMessages c tokenId, to) \<in> allowed c1"
    using b by (simp_all add: message_def)
qed

lemma transferFrom_result:
  assumes "transferFrom lib c sender from to tokenId = Inr c1"
  shows "tokenMessages c1 = tokenMessages c" "tokenImageURIs c1 = tokenImageURIs c"
    and "owners c1 = (owners c)(tokenId := to)" "to \<noteq> 0"
proof -
  from assms obtain previousOwner where
    u: "HiddenAttributeNFT_update lib c to tokenId sender = Inr (c1, previousOwner)" and to: "to \<noteq> 0"
    by (auto simp: transferFrom_def split: if_splits sum.splits)
  from update_result(1-3) [OF u] to
  show "tokenMessages c1 = tokenMessages c" "tokenImageURIs c1 = tokenImageURIs c"
    "owners c1 = (owners c)(tokenId := to)" "to \<noteq> 0"
    by simp_all
qed

lemma safeMint_result:
  assumes "safeMint lib callback accepts c to tokenId = Inr c2"
  obtains c1 where "c2 = callback c1" "to \<noteq> 0" "owners c tokenId = 0"
    "tokenMessages c1 = tokenMessages c" "tokenImageURIs c1 = tokenImageURIs c"
    "owners c1 = (owners c)(tokenId := to)"
proof -
  from assms obtain c1 previousOwner where
    u: "HiddenAttributeNFT_update lib c to tokenId 0 = Inr (c1, previousOwner)" and
    fresh: "previousOwner = 0" and s: "to \<noteq> 0" and c2: "c2 = callback c1"
    by (auto simp: safeMint_def Let_def split: if_splits sum.splits)
  from update_result(1-4) [OF u] fresh s c2 that show thesis by simp
qed

lemma mint_result:
  assumes "mint lib callback accepts c sender externalMessage proofBytes imageURI = Inr (c1, newId)"
  obtains before after where
    "newId = nextTokenId c" "owners c newId = 0" "sender \<noteq> 0"
    "tokenMessages before = tokenMessages c" "tokenImageURIs before = tokenImageURIs c"
    "owners before = (owners c)(newId := sender)"
    "after = callback before"
    "fromExternal lib after externalMessage proofBytes sender = Some (tokenMessages c1 newId)"
    "tokenMessages c1 = (tokenMessages after)(newId := tokenMessages c1 newId)"
    "tokenImageURIs c1 = (tokenImageURIs after)(newId := imageURI)"
    "owners c1 = owners after"
proof -
  define c0 where "c0 = c\<lparr>nextTokenId := nextTokenId c + 1\<rparr>"
  from assms have m:
    "(case safeMint lib callback accepts c0 sender (nextTokenId c) of
           Inl r \<Rightarrow> Inl r
         | Inr c2 \<Rightarrow>
        (case fromExternal lib c2 externalMessage proofBytes sender of
           None \<Rightarrow> Inl InvalidInputProof
         | Some message \<Rightarrow>
             (case FHE_allowThis lib (c2\<lparr>tokenMessages := (tokenMessages c2)(nextTokenId c := message),
                          tokenImageURIs := (tokenImageURIs c2)(nextTokenId c := imageURI)\<rparr>) message of
                   Inl r \<Rightarrow> Inl r
                 | Inr c4 \<Rightarrow>
                     (case FHE_allow lib c4 message sender of
                        Inl r \<Rightarrow> Inl r
                      | Inr c5 \<Rightarrow> Inr (c5, nextTokenId c))))) = Inr (c1, newId)"
    unfolding mint_def Let_def c0_def .
  obtain c2 where sm: "safeMint lib callback accepts c0 sender (nextTokenId c) = Inr c2"
    using m by (cases "safeMint lib callback accepts c0 sender (nextTokenId c)") simp_all
  obtain message where fx: "fromExternal lib c2 externalMessage proofBytes sender = Some message"
    using m sm by (cases "fromExternal lib c2 externalMessage proofBytes sender") simp_all
  define c3 where "c3 = c2\<lparr>tokenMessages := (tokenMessages c2)(nextTokenId c := message),
                          tokenImageURIs := (tokenImageURIs c2)(nextTokenId c := imageURI)\<rparr>"
  from m have m2: "(case FHE_allowThis lib c3 message of
                   Inl r \<Rightarrow> Inl r
                 | Inr c4 \<Rightarrow>
                     (case FHE_allow lib c4 message sender of
                        Inl r \<Rightarrow> Inl r
                      | Inr c5 \<Rightarrow> Inr (c5, nextTokenId c))) = Inr (c1, newId)"
    unfolding c3_def by (simp only: sm fx sum.case option.case)
  obtain c4 where a1: "FHE_allowThis lib c3 message = Inr c4"
    using m2 by (cases "FHE_allowThis lib c3 message") simp_all
  obtain c5 where a2: "FHE_allow lib c4 message sender = Inr c5"
    using m2 a1 by (cases "FHE_allow lib c4 message sender") simp_all
  from m2 have "Inr (c5, nextTokenId c) = (Inr (c1, newId) :: revert + contract \<times> uint256)"
    by (simp only: a1 a2 sum.case)
  then have c1: "c1 = c5" and id: "newId = nextTokenId c" by blast+
  have f: "tokenMessages c1 = tokenMessages c3" "tokenImageURIs c1 = tokenImageURIs c3"
    "owners c1 = owners c3"
    using FHE_allowThis_result [OF a1] FHE_allow_result [OF a2] c1 by simp_all
  from sm obtain b where b: "c2 = callback b" "sender \<noteq> 0" "owners c0 (nextTokenId c) = 0"
    "tokenMessages b = tokenMessages c0" "tokenImageURIs b = tokenImageURIs c0"
    "owners b = (owners c0)(nextTokenId c := sender)"
    by (rule safeMint_result)
  show thesis
  proof (rule that [of b c2])
    show "newId = nextTokenId c" by (rule id)
    show "owners c newId = 0" using b(3) id by (simp add: c0_def)
    show "sender \<noteq> 0" by (rule b(2))
    show "tokenMessages b = tokenMessages c" using b(4) by (simp add: c0_def)
    show "tokenImageURIs b = tokenImageURIs c" using b(5) by (simp add: c0_def)
    show "owners b = (owners c)(newId := sender)" using b(6) id by (simp add: c0_def)
    show "c2 = callback b" by (rule b(1))
    show "fromExternal lib c2 externalMessage proofBytes sender = Some (tokenMessages c1 newId)"
      using fx f(1) id by (simp add: c3_def)
    show "tokenMessages c1 = (tokenMessages c2)(newId := tokenMessages c1 newId)"
      using f(1) id by (simp add: c3_def)
    show "tokenImageURIs c1 = (tokenImageURIs c2)(newId := imageURI)"
      using f(2) id by (simp add: c3_def)
    show "owners c1 = owners c2" using f(3) by (simp add: c3_def)
  qed
qed

lemma mint_keeps:
  assumes m: "mint lib callback accepts c sender externalMessage proofBytes imageURI = Inr (c1, newId)"
    and cb: "\<And>inside. owners inside t \<noteq> 0 \<Longrightarrow>
               tokenMessages (callback inside) t = tokenMessages inside t
               \<and> tokenImageURIs (callback inside) t = tokenImageURIs inside t
               \<and> owners (callback inside) t \<noteq> 0"
    and own: "owners c t \<noteq> 0"
  shows "tokenMessages c1 t = tokenMessages c t \<and> tokenImageURIs c1 t = tokenImageURIs c t
         \<and> owners c1 t \<noteq> 0"
proof -
  from m obtain before after where r:
    "newId = nextTokenId c" "owners c newId = 0" "sender \<noteq> 0"
    "tokenMessages before = tokenMessages c" "tokenImageURIs before = tokenImageURIs c"
    "owners before = (owners c)(newId := sender)"
    "after = callback before"
    "fromExternal lib after externalMessage proofBytes sender = Some (tokenMessages c1 newId)"
    "tokenMessages c1 = (tokenMessages after)(newId := tokenMessages c1 newId)"
    "tokenImageURIs c1 = (tokenImageURIs after)(newId := imageURI)"
    "owners c1 = owners after"
    by (rule mint_result)
  from r(2) own have ne: "t \<noteq> newId" by auto
  with r(6) own have "owners before t \<noteq> 0" by simp
  from cb [OF this] have
    "tokenMessages after t = tokenMessages before t"
    "tokenImageURIs after t = tokenImageURIs before t" "owners after t \<noteq> 0"
    by (simp_all add: r(7))
  moreover have "tokenMessages c1 t = tokenMessages after t"
    by (subst r(9)) (simp add: ne)
  moreover have "tokenImageURIs c1 t = tokenImageURIs after t"
    by (subst r(10)) (simp add: ne)
  ultimately show ?thesis by (simp add: r(4,5,11))
qed

lemma safeTransferFrom_result:
  assumes "safeTransferFrom lib callback accepts c sender from to tokenId = Inr c2"
  obtains c1 where "transferFrom lib c sender from to tokenId = Inr c1" "c2 = callback c1"
  using assms by (auto simp: safeTransferFrom_def Let_def split: sum.splits if_splits)

lemma administration_fields:
  "owners (keep c (approve c sender to tokenId)) = owners c"
  "tokenMessages (keep c (approve c sender to tokenId)) = tokenMessages c"
  "tokenImageURIs (keep c (approve c sender to tokenId)) = tokenImageURIs c"
  "owners (keep c (setApprovalForAll c sender operator approved)) = owners c"
  "tokenMessages (keep c (setApprovalForAll c sender operator approved)) = tokenMessages c"
  "tokenImageURIs (keep c (setApprovalForAll c sender operator approved)) = tokenImageURIs c"
  "owners (keep c (setBaseTokenURI c sender newBaseURI)) = owners c"
  "tokenMessages (keep c (setBaseTokenURI c sender newBaseURI)) = tokenMessages c"
  "tokenImageURIs (keep c (setBaseTokenURI c sender newBaseURI)) = tokenImageURIs c"
  "owners (keep c (transferOwnership c sender newOwner)) = owners c"
  "tokenMessages (keep c (transferOwnership c sender newOwner)) = tokenMessages c"
  "tokenImageURIs (keep c (transferOwnership c sender newOwner)) = tokenImageURIs c"
  "owners (keep c (renounceOwnership c sender)) = owners c"
  "tokenMessages (keep c (renounceOwnership c sender)) = tokenMessages c"
  "tokenImageURIs (keep c (renounceOwnership c sender)) = tokenImageURIs c"
  by (simp_all add: keep_def approve_def setApprovalForAll_def setBaseTokenURI_def
      transferOwnership_def renounceOwnership_def split: sum.splits)

lemma exec_keeps:
  "owners c t \<noteq> 0 \<Longrightarrow>
   tokenMessages (exec c sender lib called) t = tokenMessages c t
   \<and> tokenImageURIs (exec c sender lib called) t = tokenImageURIs c t
   \<and> owners (exec c sender lib called) t \<noteq> 0"
  and run_keeps:
  "owners c t \<noteq> 0 \<Longrightarrow>
   tokenMessages (run c cs) t = tokenMessages c t
   \<and> tokenImageURIs (run c cs) t = tokenImageURIs c t
   \<and> owners (run c cs) t \<noteq> 0"
proof (induction called and cs arbitrary: c sender lib and c)
  case (Mint externalMessage proofBytes imageURI nested accepts)
  show ?case
  proof (cases "mint lib (\<lambda>inside. run inside nested) accepts c sender externalMessage proofBytes imageURI")
    case (Inl e)
    then show ?thesis using Mint.prems by simp
  next
    case (Inr res)
    obtain c1 newId where res: "res = (c1, newId)" by (cases res)
    from mint_keeps [OF Inr [unfolded res], of t] Mint.IH Mint.prems
    have "tokenMessages c1 t = tokenMessages c t \<and> tokenImageURIs c1 t = tokenImageURIs c t
          \<and> owners c1 t \<noteq> 0"
      by blast
    then show ?thesis using Inr res by simp
  qed
next
  case (TransferFrom holder to tokenId)
  show ?case
  proof (cases "transferFrom lib c sender holder to tokenId")
    case (Inl e)
    then show ?thesis using TransferFrom.prems by (simp add: keep_def)
  next
    case (Inr c1)
    from transferFrom_result [OF Inr] TransferFrom.prems show ?thesis
      using Inr by (simp add: keep_def)
  qed
next
  case (SafeTransferFrom holder to tokenId nested accepts)
  show ?case
  proof (cases "safeTransferFrom lib (\<lambda>inside. run inside nested) accepts c sender holder to tokenId")
    case (Inl e)
    then show ?thesis using SafeTransferFrom.prems by (simp add: keep_def)
  next
    case (Inr c2)
    from Inr obtain c1 where
      t: "transferFrom lib c sender holder to tokenId = Inr c1" and c2: "c2 = run c1 nested"
      by (rule safeTransferFrom_result)
    from transferFrom_result [OF t] SafeTransferFrom.prems have
      "tokenMessages c1 t = tokenMessages c t" "tokenImageURIs c1 t = tokenImageURIs c t"
      "owners c1 t \<noteq> 0"
      by simp_all
    with SafeTransferFrom.IH [of c1] show ?thesis using Inr c2 by (simp add: keep_def)
  qed
next
  case (Approve to tokenId)
  then show ?case by (simp add: administration_fields)
next
  case (SetApprovalForAll operator approved)
  then show ?case by (simp add: administration_fields)
next
  case (SetBaseTokenURI newBaseURI)
  then show ?case by (simp add: administration_fields)
next
  case (TransferOwnership newOwner)
  then show ?case by (simp add: administration_fields)
next
  case RenounceOwnership
  then show ?case by (simp add: administration_fields)
next
  case Done
  then show ?case by simp
next
  case (Call sender lib called rest)
  from Call.IH(1) [OF Call.prems, of sender lib] Call.IH(2) [of "exec c sender lib called"]
  show ?case by simp
qed

lemma exec_unset:
  "(\<And>t. owners c t = 0 \<Longrightarrow> tokenMessages c t = 0 \<and> tokenImageURIs c t = []) \<Longrightarrow>
   owners (exec c sender lib called) t = 0 \<Longrightarrow>
   tokenMessages (exec c sender lib called) t = 0 \<and> tokenImageURIs (exec c sender lib called) t = []"
  and run_unset:
  "(\<And>t. owners c t = 0 \<Longrightarrow> tokenMessages c t = 0 \<and> tokenImageURIs c t = []) \<Longrightarrow>
   owners (run c cs) t = 0 \<Longrightarrow>
   tokenMessages (run c cs) t = 0 \<and> tokenImageURIs (run c cs) t = []"
proof (induction called and cs arbitrary: c sender lib t and c t)
  case (Mint externalMessage proofBytes imageURI nested accepts)
  show ?case
  proof (cases "mint lib (\<lambda>inside. run inside nested) accepts c sender externalMessage proofBytes imageURI")
    case (Inl e)
    then show ?thesis using Mint.prems by simp
  next
    case (Inr res)
    obtain c1 newId where res: "res = (c1, newId)" by (cases res)
    from Inr [unfolded res] obtain before after where r:
      "newId = nextTokenId c" "owners c newId = 0" "sender \<noteq> 0"
      "tokenMessages before = tokenMessages c" "tokenImageURIs before = tokenImageURIs c"
      "owners before = (owners c)(newId := sender)"
      "after = run before nested"
      "fromExternal lib after externalMessage proofBytes sender = Some (tokenMessages c1 newId)"
      "tokenMessages c1 = (tokenMessages after)(newId := tokenMessages c1 newId)"
      "tokenImageURIs c1 = (tokenImageURIs after)(newId := imageURI)"
      "owners c1 = owners after"
      by (rule mint_result)
    have c1: "exec c sender lib (Mint externalMessage proofBytes imageURI nested accepts) = c1"
      using Inr res by simp
    have b: "\<And>t. owners before t = 0 \<Longrightarrow> tokenMessages before t = 0 \<and> tokenImageURIs before t = []"
      using Mint.prems(1) r(3) by (simp add: r(4,5,6) split: if_splits)
    have "owners before newId \<noteq> 0" using r(3) by (simp add: r(6))
    from run_keeps [OF this, of nested] have kept: "owners after newId \<noteq> 0" by (simp add: r(7))
    from Mint.prems(2) have "owners c1 t = 0" unfolding c1 .
    then have un: "owners after t = 0" by (simp add: r(11))
    with kept have ne: "t \<noteq> newId" by auto
    from Mint.IH [of before t, OF b] un have
      "tokenMessages after t = 0 \<and> tokenImageURIs after t = []"
      by (simp add: r(7))
    moreover have "tokenMessages c1 t = tokenMessages after t" by (subst r(9)) (simp add: ne)
    moreover have "tokenImageURIs c1 t = tokenImageURIs after t" by (subst r(10)) (simp add: ne)
    ultimately have "tokenMessages c1 t = 0 \<and> tokenImageURIs c1 t = []" by simp
    then show ?thesis unfolding c1 .
  qed
next
  case (TransferFrom holder to tokenId)
  show ?case
  proof (cases "transferFrom lib c sender holder to tokenId")
    case (Inl e)
    then show ?thesis using TransferFrom.prems by (simp add: keep_def)
  next
    case (Inr c1)
    from transferFrom_result [OF Inr] TransferFrom.prems show ?thesis
      using Inr by (simp add: keep_def split: if_splits)
  qed
next
  case (SafeTransferFrom holder to tokenId nested accepts)
  show ?case
  proof (cases "safeTransferFrom lib (\<lambda>inside. run inside nested) accepts c sender holder to tokenId")
    case (Inl e)
    then show ?thesis using SafeTransferFrom.prems by (simp add: keep_def)
  next
    case (Inr c2)
    from Inr obtain c1 where
      t: "transferFrom lib c sender holder to tokenId = Inr c1" and c2: "c2 = run c1 nested"
      by (rule safeTransferFrom_result)
    have b: "\<And>t. owners c1 t = 0 \<Longrightarrow> tokenMessages c1 t = 0 \<and> tokenImageURIs c1 t = []"
      using transferFrom_result [OF t] SafeTransferFrom.prems(1) by (simp split: if_splits)
    from SafeTransferFrom.IH [of c1 t, OF b] SafeTransferFrom.prems(2)
    show ?thesis using Inr c2 by (simp add: keep_def)
  qed
next
  case (Approve to tokenId)
  then show ?case by (simp add: administration_fields)
next
  case (SetApprovalForAll operator approved)
  then show ?case by (simp add: administration_fields)
next
  case (SetBaseTokenURI newBaseURI)
  then show ?case by (simp add: administration_fields)
next
  case (TransferOwnership newOwner)
  then show ?case by (simp add: administration_fields)
next
  case RenounceOwnership
  then show ?case by (simp add: administration_fields)
next
  case Done
  then show ?case by simp
next
  case (Call sender lib called rest)
  have "\<And>t. owners (exec c sender lib called) t = 0 \<Longrightarrow>
          tokenMessages (exec c sender lib called) t = 0
          \<and> tokenImageURIs (exec c sender lib called) t = []"
    by (rule Call.IH(1) [OF Call.prems(1)])
  from Call.IH(2) [of "exec c sender lib called" t, OF this] Call.prems(2)
  show ?case by simp
qed

lemmas contract_defs = mint_def Let_def deployed_def safeMint_def HiddenAttributeNFT_update_def
      ERC721_update_def isAuthorized_def FHE_isInitialized_def FHE_allow_def FHE_allowThis_def
      transferFrom_def keep_def lib_ok_def alice_addr_def bob_addr_def minter_def

lemma ex_mint_1:
  "mint lib_ok (\<lambda>inside. run inside Done) True (deployed 0xC0DE 0xDE []) alice_addr 0x77 []
     ''ipfs://cat'' = Inr (minted_1, 1)"
  by (simp add: contract_defs minted_1_def)

lemma ex_transfer_1:
  "HiddenAttributeNFT_update lib_ok minted_1 bob_addr 1 alice_addr = Inr (transferred_1, alice_addr)"
  by (simp add: contract_defs minted_1_def transferred_1_def)

lemma ex_mint_twice:
  "mint lib_ok (\<lambda>inside. run inside mints_again) True (deployed 0xC0DE 0xDE []) minter 0x77 []
     ''ipfs://cat'' = Inr (minted_twice, 1)"
  by (simp add: contract_defs mints_again_def minted_twice_def)

lemma ex_history_twice: "run (deployed 0xC0DE 0xDE []) history_twice = minted_twice"
  by (simp add: history_twice_def ex_mint_twice)

text \<open>
  C9. The hook \<open>_update\<close>, through which every transfer goes, returns a state with the
  same stored messages and image URIs, and with the new owner allowed on the handle the
  token has at that moment, when it has one. A mint, whatever its receiver does when
  called back (further mints and transfers included), has a token without owner, and
  stores its image URI and the handle the encryption library gives for its input into a
  slot that no call made from the callback has touched; it leaves the handle and the
  image URI of every token that existed when it began as they were. Hence, along any run
  of calls, nested calls included, a token that exists keeps the handle and the image URI
  it has, and keeps existing; and, from the deployment on, a token that does not exist
  yet has no handle and no image URI, so that the write of its mint is the only one.
\<close>

theorem ciphertext_written_once:
  "(HiddenAttributeNFT_update lib c to tokenId auth = Inr (c1, previousOwner) \<longrightarrow>
      tokenMessages c1 = tokenMessages c \<and> tokenImageURIs c1 = tokenImageURIs c
      \<and> (to \<noteq> 0 \<and> FHE_isInitialized (tokenMessages c tokenId) \<longrightarrow>
           (tokenMessages c tokenId, to) \<in> allowed c1))
   \<and> (mint lib (\<lambda>inside. run inside nested) accepts d sender externalMessage proofBytes imageURI
         = Inr (d1, newId) \<longrightarrow>
      newId = nextTokenId d \<and> owners d newId = 0 \<and> owners d1 newId \<noteq> 0
      \<and> tokenImageURIs d1 newId = imageURI
      \<and> (\<exists>d0. fromExternal lib d0 externalMessage proofBytes sender = Some (tokenMessages d1 newId)
               \<and> tokenMessages d0 newId = tokenMessages d newId
               \<and> tokenImageURIs d0 newId = tokenImageURIs d newId)
      \<and> (\<forall>other. owners d other \<noteq> 0 \<longrightarrow>
            tokenMessages d1 other = tokenMessages d other
            \<and> tokenImageURIs d1 other = tokenImageURIs d other))
   \<and> (owners e t \<noteq> 0 \<longrightarrow>
      tokenMessages (run e txs) t = tokenMessages e t
      \<and> tokenImageURIs (run e txs) t = tokenImageURIs e t
      \<and> owners (run e txs) t \<noteq> 0)
   \<and> (owners (run (deployed self deployer uri) history) unminted = 0 \<longrightarrow>
      tokenMessages (run (deployed self deployer uri) history) unminted = 0
      \<and> tokenImageURIs (run (deployed self deployer uri) history) unminted = [])"
proof (intro conjI impI)
  assume u: "HiddenAttributeNFT_update lib c to tokenId auth = Inr (c1, previousOwner)"
  show "tokenMessages c1 = tokenMessages c" by (rule update_result(1) [OF u])
  show "tokenImageURIs c1 = tokenImageURIs c" by (rule update_result(2) [OF u])
  assume "to \<noteq> 0 \<and> FHE_isInitialized (tokenMessages c tokenId)"
  then show "(tokenMessages c tokenId, to) \<in> allowed c1"
    using update_result(5) [OF u] by blast
next
  assume m: "mint lib (\<lambda>inside. run inside nested) accepts d sender externalMessage proofBytes imageURI
               = Inr (d1, newId)"
  from m obtain before after where r:
    "newId = nextTokenId d" "owners d newId = 0" "sender \<noteq> 0"
    "tokenMessages before = tokenMessages d" "tokenImageURIs before = tokenImageURIs d"
    "owners before = (owners d)(newId := sender)"
    "after = run before nested"
    "fromExternal lib after externalMessage proofBytes sender = Some (tokenMessages d1 newId)"
    "tokenMessages d1 = (tokenMessages after)(newId := tokenMessages d1 newId)"
    "tokenImageURIs d1 = (tokenImageURIs after)(newId := imageURI)"
    "owners d1 = owners after"
    by (rule mint_result)
  have "owners before newId \<noteq> 0" using r(3) by (simp add: r(6))
  from run_keeps [OF this, of nested] have slot:
    "tokenMessages after newId = tokenMessages d newId"
    "tokenImageURIs after newId = tokenImageURIs d newId" "owners after newId \<noteq> 0"
    by (simp_all add: r(4,5,7))
  show "newId = nextTokenId d" by (rule r(1))
  show "owners d newId = 0" by (rule r(2))
  show "owners d1 newId \<noteq> 0" using slot(3) by (simp add: r(11))
  show "tokenImageURIs d1 newId = imageURI" by (subst r(10)) simp
  show "\<exists>d0. fromExternal lib d0 externalMessage proofBytes sender = Some (tokenMessages d1 newId)
               \<and> tokenMessages d0 newId = tokenMessages d newId
               \<and> tokenImageURIs d0 newId = tokenImageURIs d newId"
    using r(8) slot(1,2) by blast
  show "\<forall>other. owners d other \<noteq> 0 \<longrightarrow>
            tokenMessages d1 other = tokenMessages d other
            \<and> tokenImageURIs d1 other = tokenImageURIs d other"
  proof (intro allI impI)
    fix other
    assume "owners d other \<noteq> 0"
    from mint_keeps [OF m, of other] run_keeps [of _ other nested] this
    show "tokenMessages d1 other = tokenMessages d other
            \<and> tokenImageURIs d1 other = tokenImageURIs d other"
      by blast
  qed
next
  assume "owners e t \<noteq> 0"
  then show "tokenMessages (run e txs) t = tokenMessages e t"
    "tokenImageURIs (run e txs) t = tokenImageURIs e t"
    "owners (run e txs) t \<noteq> 0"
    using run_keeps [of e t txs] by simp_all
next
  assume un: "owners (run (deployed self deployer uri) history) unminted = 0"
  have "\<And>t. owners (deployed self deployer uri) t = 0 \<Longrightarrow>
          tokenMessages (deployed self deployer uri) t = 0
          \<and> tokenImageURIs (deployed self deployer uri) t = []"
    by (simp add: deployed_def)
  from run_unset [OF this un]
  show "tokenMessages (run (deployed self deployer uri) history) unminted = 0"
    "tokenImageURIs (run (deployed self deployer uri) history) unminted = []"
    by simp_all
qed

theorem ciphertext_written_once_witness:
  "HiddenAttributeNFT_update lib_ok minted_1 bob_addr 1 alice_addr = Inr (transferred_1, alice_addr)
   \<and> tokenMessages transferred_1 = tokenMessages minted_1
   \<and> (tokenMessages minted_1 1, bob_addr) \<in> allowed transferred_1
   \<and> mint lib_ok (\<lambda>inside. run inside mints_again) True (deployed 0xC0DE 0xDE []) minter 0x77 []
        ''ipfs://cat'' = Inr (minted_twice, 1)
   \<and> owners (deployed 0xC0DE 0xDE []) 1 = 0
   \<and> owners minted_twice 1 \<noteq> 0
   \<and> tokenMessages minted_twice 1 = 0x77
   \<and> tokenMessages (run minted_twice history_third) 1 = 0x77
   \<and> owners (run minted_twice history_third) 1 \<noteq> 0
   \<and> owners (run (deployed 0xC0DE 0xDE []) history_twice) 3 = 0
   \<and> tokenMessages (run (deployed 0xC0DE 0xDE []) history_twice) 3 = 0"
proof -
  have a: "bob_addr \<noteq> 0" "FHE_isInitialized (tokenMessages minted_1 1)"
    "owners minted_twice 1 \<noteq> 0" "tokenMessages minted_twice 1 = 0x77"
    "owners minted_twice 3 = 0" "owners (deployed 0xC0DE 0xDE []) 1 = 0"
    by (simp_all add: bob_addr_def alice_addr_def minter_def minted_1_def minted_twice_def
        deployed_def FHE_isInitialized_def)
  from ciphertext_written_once
    [where lib = lib_ok and c = minted_1 and to = bob_addr and tokenId = 1 and auth = alice_addr
       and ?c1.0 = transferred_1 and previousOwner = alice_addr
       and nested = mints_again and accepts = True and d = "deployed 0xC0DE 0xDE []"
       and sender = minter and externalMessage = "0x77" and proofBytes = "[]"
       and imageURI = "''ipfs://cat''" and ?d1.0 = minted_twice and newId = 1
       and e = minted_twice and t = 1 and txs = history_third
       and self = "0xC0DE" and deployer = "0xDE" and uri = "[]" and history = history_twice
       and unminted = 3]
    ex_mint_twice ex_transfer_1 ex_history_twice a
  show ?thesis by simp
qed

text \<open>
  The hook grants on the handle stored when it runs. A transfer made from inside the
  receiver callback of the token's own mint therefore grants nothing, the handle being
  stored only afterwards: the token then belongs to an account that is not on the access
  list of its handle.
\<close>

lemma transfer_inside_callback:
  "mint lib_ok (\<lambda>inside. run inside passes_on) True (deployed 0xC0DE 0xDE []) minter 0x77 []
     ''ipfs://cat'' = Inr (passed_on, 1)
   \<and> owners passed_on 1 = bob_addr
   \<and> tokenMessages passed_on 1 = 0x77
   \<and> (0x77, bob_addr) \<notin> allowed passed_on"
  by (simp add: contract_defs passes_on_def passed_on_def)


section \<open>A reveal of a token without ciphertext\<close>

lemma getEncryptedMessage_unset:
  "tokenMessages c t = 0 \<Longrightarrow>
   getEncryptedMessage c t =
     Inl (if owners c t = 0 then ERC721NonexistentToken t else AttributeNotInitialized t)"
  by (simp add: getEncryptedMessage_def ownerOf_def FHE_isInitialized_def)

lemma HiddenNFTApp_read_fails:
  assumes "readContract_result env = Inl e"
  shows "HiddenNFTApp_decryptMessage True True True env s tokenId =
           ([ReadGetEncryptedMessage tokenId],
            s\<lparr>app_activeDecrypt := None, app_decryptStatus := err_message e\<rparr>)"
  using assms by (simp add: HiddenNFTApp_decryptMessage_def decryption_failed_def)

lemma HiddenNFTApp_empty_handle:
  assumes "readContract_result env = Inr h" "h = [] \<or> h = lit ''0x'' \<or> h = lit ''0x00''"
  shows "HiddenNFTApp_decryptMessage True True True env s tokenId =
           ([ReadGetEncryptedMessage tokenId],
            s\<lparr>app_activeDecrypt := None,
              app_decryptStatus := lit ''Message is empty for this token.''\<rparr>)"
  using assms
  by (auto simp: HiddenNFTApp_decryptMessage_def decryption_failed_def Error_def truthy_def)

lemma decryptMessage_read_fails:
  "DecryptUint256 h \<notin> set (fst (decryptMessage (Inl e) s tokenId))"
  by (simp add: decryptMessage_def Let_def split: option.splits)

text \<open>
  C7, as the code has it. For a token id whose stored handle is zero,
  \<open>getEncryptedMessage\<close> reverts: with \<open>AttributeNotInitialized\<close> when the token
  exists, and with the token library's \<open>ERC721NonexistentToken\<close>, raised by
  \<open>ownerOf\<close> before the handle is looked at, when it was never minted. A reveal that
  reads such a token stops at the read, shows the error and generates no key pair, asks
  for no signature and calls no decryption; the reveal of \<open>HiddenNFTAppV2Simple\<close> calls
  no decryption either. A handle read back as empty, \<open>0x\<close> or \<open>0x00\<close> is refused by
  \<open>HiddenNFTApp\<close> before any decryption step.
\<close>

theorem unset_handle_reveal_fails_fast:
  assumes "tokenMessages c (of_nat tokenId) = 0"
    and "readContract_result env = readContract_getEncryptedMessage describe c tokenId"
  shows "getEncryptedMessage c (of_nat tokenId) =
           Inl (if owners c (of_nat tokenId) = 0 then ERC721NonexistentToken (of_nat tokenId)
                else AttributeNotInitialized (of_nat tokenId))
       \<and> HiddenNFTApp_decryptMessage True True True env s tokenId =
           ([ReadGetEncryptedMessage tokenId],
            s\<lparr>app_activeDecrypt := None,
              app_decryptStatus :=
                err_message (describe
                  (if owners c (of_nat tokenId) = 0 then ERC721NonexistentToken (of_nat tokenId)
                   else AttributeNotInitialized (of_nat tokenId)))\<rparr>)
       \<and> DecryptUint256 h \<notin>
           set (fst (decryptMessage (readContract_getEncryptedMessage describe c tokenId) s2 tokenId))
       \<and> (readContract_result env2 = Inr h2 \<and> (h2 = [] \<or> h2 = lit ''0x'' \<or> h2 = lit ''0x00'') \<longrightarrow>
            HiddenNFTApp_decryptMessage True True True env2 s tokenId =
              ([ReadGetEncryptedMessage tokenId],
               s\<lparr>app_activeDecrypt := None,
                 app_decryptStatus := lit ''Message is empty for this token.''\<rparr>))"
proof -
  let ?r = "if owners c (of_nat tokenId) = 0 then ERC721NonexistentToken (of_nat tokenId)
            else AttributeNotInitialized (of_nat tokenId)"
  have g: "getEncryptedMessage c (of_nat tokenId) = Inl ?r"
    using assms(1) by (rule getEncryptedMessage_unset)
  then have rd: "readContract_getEncryptedMessage describe c tokenId = Inl (describe ?r)"
    by (simp only: readContract_getEncryptedMessage_def sum.case)
  with assms(2) have "readContract_result env = Inl (describe ?r)" by simp
  then have app: "HiddenNFTApp_decryptMessage True True True env s tokenId =
           ([ReadGetEncryptedMessage tokenId],
            s\<lparr>app_activeDecrypt := None, app_decryptStatus := err_message (describe ?r)\<rparr>)"
    by (rule HiddenNFTApp_read_fails)
  have v2: "DecryptUint256 h \<notin>
           set (fst (decryptMessage (readContract_getEncryptedMessage describe c tokenId) s2 tokenId))"
    unfolding rd by (rule decryptMessage_read_fails)
  have guard: "HiddenNFTApp_decryptMessage True True True env2 s tokenId =
              ([ReadGetEncryptedMessage tokenId],
               s\<lparr>app_activeDecrypt := None,
                 app_decryptStatus := lit ''Message is empty for this token.''\<rparr>)"
    if "readContract_result env2 = Inr h2 \<and> (h2 = [] \<or> h2 = lit ''0x'' \<or> h2 = lit ''0x00'')"
    using that HiddenNFTApp_empty_handle [of env2 h2 s tokenId] by blast
  from g app v2 guard show ?thesis by blast
qed

lemma ex_unminted:
  "tokenMessages (deployed 0xC0DE 0xDE []) (of_nat 7) = 0"
  "owners (deployed 0xC0DE 0xDE []) (of_nat 7) = 0"
  by (simp_all add: deployed_def)

theorem unset_handle_reveal_fails_fast_witness:
  "tokenMessages (deployed 0xC0DE 0xDE []) (of_nat 7) = 0
   \<and> getEncryptedMessage (deployed 0xC0DE 0xDE []) (of_nat 7) = Inl (ERC721NonexistentToken 7)
   \<and> HiddenNFTApp_decryptMessage True True True (reveal_from (deployed 0xC0DE 0xDE []) 7) hidden 7 =
       ([ReadGetEncryptedMessage 7],
        hidden\<lparr>app_activeDecrypt := None,
               app_decryptStatus := lit ''ERC721NonexistentToken''\<rparr>)"
proof -
  have r: "readContract_result (reveal_from (deployed 0xC0DE 0xDE []) 7) =
      readContract_getEncryptedMessage describe_revert (deployed 0xC0DE 0xDE []) 7"
    by (simp add: reveal_from_def)
  from unset_handle_reveal_fails_fast [OF ex_unminted(1) r, of hidden] ex_unminted
  show ?thesis by (simp add: describe_revert_def Error_def)
qed

text \<open>
  The claim as stated fails for a token id that was never minted: its handle is unset, and
  the read reverts with the token library's error, not with \<open>AttributeNotInitialized\<close>;
  no handle reaches the client for it to refuse.
\<close>

theorem unminted_token_counterexample:
  "tokenMessages (deployed 0xC0DE 0xDE []) 7 = 0
   \<and> getEncryptedMessage (deployed 0xC0DE 0xDE []) 7 = Inl (ERC721NonexistentToken 7)
   \<and> getEncryptedMessage (deployed 0xC0DE 0xDE []) 7 \<noteq> Inl (AttributeNotInitialized 7)
   \<and> app_decryptStatus
        (snd (HiddenNFTApp_decryptMessage True True True
                (reveal_from (deployed 0xC0DE 0xDE []) 7) hidden 7))
       = lit ''ERC721NonexistentToken''"
proof -
  have z: "tokenMessages (deployed 0xC0DE 0xDE []) 7 = 0" "owners (deployed 0xC0DE 0xDE []) 7 = 0"
    by (simp_all add: deployed_def)
  have g: "getEncryptedMessage (deployed 0xC0DE 0xDE []) 7 = Inl (ERC721NonexistentToken 7)"
    using getEncryptedMessage_unset [OF z(1)] z(2) by simp
  then have "readContract_result (reveal_from (deployed 0xC0DE 0xDE []) 7) =
      Inl (describe_revert (ERC721NonexistentToken 7))"
    by (simp add: reveal_from_def readContract_getEncryptedMessage_def)
  from HiddenNFTApp_read_fails [OF this, of hidden 7] z g
  show ?thesis by (simp add: describe_revert_def Error_def)
qed

section \<open>Two reveals of one token\<close>

text \<open>
  C8 does not hold of the code. With tokens 1 and 2 listed and not cached: a click on 1, a
  click on 2, which makes 2 the active token and enables the button of 1 again, and a
  second click on 1 leave two reveals of token 1 in flight. When the first has read the
  handle and its decryption has settled, the second reads the handle and calls the
  decryption again: two decryption calls for token 1, the second neither waiting for the
  first nor reusing its outcome. When both reads return before a decryption settles, two
  decryption calls for token 1 are outstanding at once.
\<close>

theorem duplicate_reveal_in_flight:
  "ui_run idle [Click 1, Click 2, Click 1] =
     Some \<lparr>ui_activeDecrypt = Some 1, reading = [1, 2, 1], decrypting = [], decryptCalls = []\<rparr>
   \<and> ui_run idle [Click 1, Click 2, Click 1, ReadReturns 1, DecryptSettles 1, ReadReturns 1] =
     Some \<lparr>ui_activeDecrypt = None, reading = [2], decrypting = [1], decryptCalls = [1, 1]\<rparr>
   \<and> ui_run idle [Click 1, Click 2, Click 1, ReadReturns 1, ReadReturns 1] =
     Some \<lparr>ui_activeDecrypt = Some 1, reading = [2], decrypting = [1, 1], decryptCalls = [1, 1]\<rparr>"
  by (simp add: idle_def)

end
